theory Spec2Isabelle
  imports Complex_Main "HOL-Library.AList" "HOL-Library.Code_Target_Nat"
begin

section \<open>JavaScript values\<close>

text \<open>
  A JavaScript string is a sequence of UTF-16 code units; the regular expressions of the
  services carry no \<open>u\<close> flag and therefore work on code units. A code unit is a natural
  number here, and \<open>js\<close> turns a literal of the theory into such a string.
\<close>

type_synonym jsstring = "nat list"

definition js :: "string \<Rightarrow> jsstring" where
  "js s = map of_char s"

text \<open>
  Numbers are IEEE doubles in the source. The services only test them (truthiness,
  \<open>Number.isInteger\<close>, comparison with small integers), so a number is a rational or one
  of the three special values; rounding is out of the model.
\<close>

datatype jsnum = Finite rat | NaN | PosInf | NegInf

text \<open>The primitives that the vector store accepts as metadata values.\<close>

datatype prim = PStr jsstring | PNum jsnum | PBool bool

text \<open>
  A value found in a job payload: a primitive, or something the sanitizer rejects
  (\<open>null\<close>, \<open>undefined\<close>, an array, a nested object).
\<close>

datatype jsval = VPrim prim | VNull | VUndefined | VArray | VObject

text \<open>
  An object literal is an association list in insertion order. Assigning a key that is
  present keeps its position and replaces its value, assigning a new key appends it:
  this is \<open>AList.update\<close>. The spread \<open>{...a, ...b}\<close> assigns the entries of \<open>b\<close> to \<open>a\<close>
  from left to right.
\<close>

type_synonym 'v obj = "(jsstring \<times> 'v) list"

definition spread :: "'v obj \<Rightarrow> 'v obj \<Rightarrow> 'v obj" where
  "spread a b = fold (\<lambda>(k, v). AList.update k v) b a"

definition object_keys :: "'v obj \<Rightarrow> jsstring list" where
  "object_keys ob = map fst ob"

text \<open>Truthiness of a primitive, and of an optional one (\<open>undefined\<close> is falsy).\<close>

fun truthy :: "prim \<Rightarrow> bool" where
  "truthy (PStr s) = (s \<noteq> [])"
| "truthy (PNum (Finite r)) = (r \<noteq> 0)"
| "truthy (PNum NaN) = False"
| "truthy (PNum PosInf) = True"
| "truthy (PNum NegInf) = True"
| "truthy (PBool b) = b"

fun truthy_opt :: "prim option \<Rightarrow> bool" where
  "truthy_opt None = False"
| "truthy_opt (Some v) = truthy v"

text \<open>
  \<open>new Set(xs)\<close> iterates in insertion order: the first occurrence of every element.
\<close>

definition set_add :: "'a \<Rightarrow> 'a list \<Rightarrow> 'a list" where
  "set_add x acc = (if x \<in> set acc then acc else acc @ [x])"

definition js_Set :: "'a list \<Rightarrow> 'a list" where
  "js_Set xs = fold set_add xs []"

text \<open>
  The white space class \<open>\s\<close> of ECMAScript (also what \<open>trim\<close> strips): tab, line feed,
  vertical tab, form feed, carriage return, space, no-break space, U+1680, U+2000 to
  U+200A, the line and paragraph separators, U+202F, U+205F, U+3000 and U+FEFF.
\<close>

definition is_ws :: "nat \<Rightarrow> bool" where
  "is_ws c \<longleftrightarrow> (9 \<le> c \<and> c \<le> 13) \<or> c = 32 \<or> c = 160 \<or> c = 5760
     \<or> (8192 \<le> c \<and> c \<le> 8202) \<or> c = 8232 \<or> c = 8233 \<or> c = 8239 \<or> c = 8287
     \<or> c = 12288 \<or> c = 65279"

definition trim :: "jsstring \<Rightarrow> jsstring" where
  "trim s = rev (dropWhile is_ws (rev (dropWhile is_ws s)))"

section \<open>Content store\<close>

text \<open>
  \<open>ContentStoreService\<close> keeps one row per source file in the table \<open>content_blobs\<close>, whose
  primary key is the file path.
\<close>

record ContentBlobEntity =
  blob_id :: jsstring
  blob_repoId :: "jsstring option"
  blob_content :: jsstring
  blob_metadata :: "prim obj option"

text \<open>
  \<open>sanitizeContent\<close>: when the content holds a null code unit, all of them are removed;
  then every code unit of the class \<open>[\x00-\x08\x0B\x0C\x0E-\x1F\x7F]\<close> is removed.
\<close>

definition control_class :: "nat \<Rightarrow> bool" where
  "control_class c \<longleftrightarrow> c \<le> 8 \<or> c = 11 \<or> c = 12 \<or> (14 \<le> c \<and> c \<le> 31) \<or> c = 127"

definition sanitizeContent :: "jsstring \<Rightarrow> jsstring" where
  "sanitizeContent content =
     (let content1 = (if 0 \<in> set content then filter (\<lambda>c. c \<noteq> 0) content else content)
      in filter (\<lambda>c. \<not> control_class c) content1)"

text \<open>
  The sanitization as the specification words it: the null code unit and the C0 controls
  (below 0x20) other than tab (0x09), line feed (0x0A) and carriage return (0x0D) go,
  every other code unit stays.
\<close>

definition c0_disallowed :: "nat \<Rightarrow> bool" where
  "c0_disallowed c \<longleftrightarrow> c < 32 \<and> c \<noteq> 9 \<and> c \<noteq> 10 \<and> c \<noteq> 13"

definition spec_sanitizeContent :: "jsstring \<Rightarrow> jsstring" where
  "spec_sanitizeContent content = filter (\<lambda>c. \<not> c0_disallowed c) content"

text \<open>
  The table is a list of rows, and \<open>repo.save\<close> is an upsert on the primary key.
  \<open>findBy({ id: In(ids) })\<close> is answered by the database: it selects the rows whose key
  is among \<open>ids\<close>, and since the query has no \<open>ORDER BY\<close> the order of the answer is the
  database's choice. The answer of the database to such a selection over a table is a
  parameter of the model.
\<close>

type_synonym blob_select =
  "jsstring list \<Rightarrow> ContentBlobEntity list \<Rightarrow> ContentBlobEntity list"

definition save_blob :: "ContentBlobEntity \<Rightarrow> ContentBlobEntity list \<Rightarrow> ContentBlobEntity list" where
  "save_blob b table =
     (if blob_id b \<in> set (map blob_id table)
      then map (\<lambda>x. if blob_id x = blob_id b then b else x) table
      else table @ [b])"

definition saveParent ::
  "jsstring \<Rightarrow> jsstring \<Rightarrow> jsstring option \<Rightarrow> prim obj option
     \<Rightarrow> ContentBlobEntity list \<Rightarrow> ContentBlobEntity list" where
  "saveParent ident content repoId metadata table =
     (let sanitizedContent = sanitizeContent content
      in save_blob
           \<lparr> blob_id = ident,
             blob_repoId = Some (case repoId of None \<Rightarrow> js ''no-repo'' | Some r \<Rightarrow> r),
             blob_content = sanitizedContent,
             blob_metadata = Some (case metadata of None \<Rightarrow> [] | Some m \<Rightarrow> m) \<rparr>
           table)"

definition getParents ::
  "blob_select \<Rightarrow> jsstring list \<Rightarrow> ContentBlobEntity list \<Rightarrow> ContentBlobEntity list" where
  "getParents findBy ids table = findBy ids table"

section \<open>Embedding client\<close>

type_synonym EmbeddingVector = "real list"

text \<open>
  The errors the services raise themselves, and \<open>External\<close> for an error that a
  collaborator (embedding backend, vector index query, git) raises and the service rethrows.
\<close>

datatype error =
    DuplicateIds nat nat "jsstring list"
  | NoDistance nat
  | BadRequest
  | External jsstring

text \<open>
  \<open>embedDocuments\<close> sanitizes each text with
  \<^verbatim>\<open>text.replace(/^\s+|\s+$|\n/g, (match) => match === '\n' ? ' ' : '')\<close>.
  The replacement scans from the left and takes the first alternative that matches:
  at the start a maximal run of white space; elsewhere a run of white space that reaches
  the end of the text, or else a single line feed. Each match is handed to the callback.
\<close>

definition replace_callback :: "jsstring \<Rightarrow> jsstring" where
  "replace_callback m = (if m = [10] then [32] else [])"

fun replace_rest :: "jsstring \<Rightarrow> jsstring" where
  "replace_rest [] = []"
| "replace_rest (c # cs) =
     (if list_all is_ws (c # cs) then replace_callback (c # cs)
      else if c = 10 then replace_callback [10] @ replace_rest cs
      else c # replace_rest cs)"

definition sanitize_text :: "jsstring \<Rightarrow> jsstring" where
  "sanitize_text text =
     (let lead = takeWhile is_ws text
      in (if lead = [] then [] else replace_callback lead)
           @ replace_rest (dropWhile is_ws text))"

definition estimateTokens :: "jsstring \<Rightarrow> nat" where
  "estimateTokens text = (length text + 3) div 4"

definition truncateToTokenLimit :: "jsstring \<Rightarrow> nat \<Rightarrow> jsstring" where
  "truncateToTokenLimit text maxTokens =
     (if estimateTokens text \<le> maxTokens then text else take (maxTokens * 4) text)"

definition MAX_TOKENS_PER_INPUT :: nat where
  "MAX_TOKENS_PER_INPUT = 8000"

text \<open>
  The loop over the inputs: \<open>null\<close>, \<open>undefined\<close> and the empty string are skipped, a text
  that is empty after sanitization is skipped, a long text is truncated.
\<close>

fun processTexts :: "jsstring option list \<Rightarrow> jsstring list" where
  "processTexts [] = []"
| "processTexts (None # texts) = processTexts texts"
| "processTexts (Some text # texts) =
     (if text = [] then processTexts texts
      else (let processed = sanitize_text text
            in if length processed = 0 then processTexts texts
               else (if estimateTokens processed > MAX_TOKENS_PER_INPUT
                     then truncateToTokenLimit processed MAX_TOKENS_PER_INPUT
                     else processed) # processTexts texts))"

text \<open>
  \<open>embedDocuments\<close> takes the backend call \<open>openai.embeddings.create\<close> as a parameter and
  returns, beside its result, the requests it sent to the backend (none or one).
\<close>

definition embedDocuments ::
  "(jsstring list \<Rightarrow> error + EmbeddingVector list) \<Rightarrow> jsstring option list option
     \<Rightarrow> (error + EmbeddingVector list) \<times> jsstring list list" where
  "embedDocuments create texts =
     (case texts of
        None \<Rightarrow> (Inr [], [])
      | Some ts \<Rightarrow>
          if length ts = 0 then (Inr [], [])
          else (let processedTexts = processTexts ts
                in if length processedTexts = 0 then (Inr [], [])
                   else (create processedTexts, [processedTexts])))"

text \<open>
  The sanitization as the specification words it (and as the comment in the source
  describes it, \<^verbatim>\<open>text.replace(/\n/g, ' ').trim()\<close>): white space is stripped at both
  ends and the line feeds that remain become spaces.
\<close>

definition spec_sanitize_text :: "jsstring \<Rightarrow> jsstring" where
  "spec_sanitize_text text = map (\<lambda>c. if c = 10 then 32 else c) (trim text)"

section \<open>Vector store\<close>

text \<open>
  A record handed to \<open>upsert\<close> or returned by \<open>similaritySearch\<close>. The content of a search
  result is read through an unchecked cast from the document or from the metadata field
  \<open>text\<close>, so it is a primitive; \<open>vectors[idx]\<close> and \<open>content\<close> may be \<open>undefined\<close>.
\<close>

record VectorRecord =
  vr_id :: jsstring
  vr_content :: "prim option"
  vr_vector :: "EmbeddingVector option"
  vr_metadata :: "prim obj"
  vr_score :: "real option"

text \<open>
  The collection of the index is a list of rows. The operations of the index used by the
  adapter follow its contract: \<open>upsert\<close> replaces the row of an id or appends one,
  \<open>delete({ ids })\<close> removes the rows whose id is listed, \<open>delete({ where })\<close> removes the
  rows whose metadata equal the filter on every key of the filter.
\<close>

record chroma_row =
  row_id :: jsstring
  row_embedding :: "EmbeddingVector option"
  row_metadata :: "prim obj"
  row_document :: prim

datatype where_clause = WhereObj "prim obj" | WhereAnd "prim obj list"

datatype chroma_call =
    GetCollection
  | CreateCollection
  | Upsert "chroma_row list"
  | DeleteIds "jsstring list"
  | DeleteWhere "prim obj"
  | Query EmbeddingVector int "where_clause option"

definition put_row :: "chroma_row \<Rightarrow> chroma_row list \<Rightarrow> chroma_row list" where
  "put_row r rows =
     (if row_id r \<in> set (map row_id rows)
      then map (\<lambda>x. if row_id x = row_id r then r else x) rows
      else rows @ [r])"

definition chroma_upsert :: "chroma_row list \<Rightarrow> chroma_row list \<Rightarrow> chroma_row list" where
  "chroma_upsert batch rows = fold put_row batch rows"

definition chroma_delete_ids :: "jsstring list \<Rightarrow> chroma_row list \<Rightarrow> chroma_row list" where
  "chroma_delete_ids ids rows = filter (\<lambda>r. row_id r \<notin> set ids) rows"

definition matches :: "prim obj \<Rightarrow> prim obj \<Rightarrow> bool" where
  "matches flt md = list_all (\<lambda>(k, v). map_of md k = Some v) flt"

definition chroma_delete_where :: "prim obj \<Rightarrow> chroma_row list \<Rightarrow> chroma_row list" where
  "chroma_delete_where flt rows = filter (\<lambda>r. \<not> matches flt (row_metadata r)) rows"

text \<open>
  The state of \<open>VectorStoreService\<close>: whether the collection handle is cached, the batch
  size, the collection on the server (\<open>None\<close> while it does not exist) and the calls made
  to the index so far, oldest first.
\<close>

record VectorStoreService =
  vs_collection :: bool
  vs_batchSize :: nat
  vs_server :: "chroma_row list option"
  vs_calls :: "chroma_call list"

definition stored_rows :: "VectorStoreService \<Rightarrow> chroma_row list" where
  "stored_rows s = (case vs_server s of None \<Rightarrow> [] | Some rows \<Rightarrow> rows)"

definition ensureCollection :: "VectorStoreService \<Rightarrow> VectorStoreService" where
  "ensureCollection s =
     (if vs_collection s then s
      else (case vs_server s of
              Some rows \<Rightarrow> s\<lparr> vs_collection := True, vs_calls := vs_calls s @ [GetCollection] \<rparr>
            | None \<Rightarrow> s\<lparr> vs_collection := True, vs_server := Some [],
                         vs_calls := vs_calls s @ [GetCollection, CreateCollection] \<rparr>))"

text \<open>\<open>ids.indexOf(id)\<close>, and the ids at an index that is not their first.\<close>

fun indexOf :: "'a list \<Rightarrow> 'a \<Rightarrow> int" where
  "indexOf [] x = - 1"
| "indexOf (y # ys) x =
     (if y = x then 0 else (let i = indexOf ys x in if i < 0 then - 1 else i + 1))"

definition duplicates :: "'a list \<Rightarrow> 'a list" where
  "duplicates ids =
     map fst (filter (\<lambda>(ident, index). indexOf ids ident \<noteq> int index)
                (zip ids [0 ..< length ids]))"

definition validateUniqueIds :: "VectorRecord list \<Rightarrow> error + unit" where
  "validateUniqueIds records =
     (let ids = map vr_id records; uniqueIds = js_Set ids
      in if length ids \<noteq> length uniqueIds
         then (let uniqueDuplicates = js_Set (duplicates ids)
               in Inl (DuplicateIds (length ids - length uniqueIds) (length ids)
                         uniqueDuplicates))
         else Inr ())"

definition to_row :: "VectorRecord \<Rightarrow> chroma_row" where
  "to_row record =
     \<lparr> row_id = vr_id record,
       row_embedding = vr_vector record,
       row_metadata = vr_metadata record,
       row_document = (case vr_content record of None \<Rightarrow> PStr [] | Some c \<Rightarrow> c) \<rparr>"

definition collection_upsert :: "chroma_row list \<Rightarrow> VectorStoreService \<Rightarrow> VectorStoreService" where
  "collection_upsert batch s =
     s\<lparr> vs_server := map_option (chroma_upsert batch) (vs_server s),
        vs_calls := vs_calls s @ [Upsert batch] \<rparr>"

text \<open>
  The batch loop \<open>for (i = 0; i < records.length; i += batchSize)\<close>. With a batch size of
  zero the index never advances and the loop does not end: the value is \<open>None\<close>.
\<close>

function upsert_batches ::
  "nat \<Rightarrow> VectorRecord list \<Rightarrow> nat \<Rightarrow> VectorStoreService \<Rightarrow> VectorStoreService option" where
  "upsert_batches bs records i s =
     (if i < length records
      then (if bs = 0 then None
            else upsert_batches bs records (i + bs)
                   (collection_upsert (map to_row (take bs (drop i records))) s))
      else Some s)"
  by pat_completeness auto
termination
  by (relation "measure (\<lambda>(bs, records, i, s). length records - i)") auto

declare upsert_batches.simps [simp del]

definition upsert ::
  "VectorRecord list \<Rightarrow> VectorStoreService \<Rightarrow> ((error + unit) \<times> VectorStoreService) option" where
  "upsert records s =
     (let s1 = ensureCollection s
      in case validateUniqueIds records of
           Inl e \<Rightarrow> Some (Inl e, s1)
         | Inr u \<Rightarrow>
             (case upsert_batches (vs_batchSize s1) records 0 s1 of
                None \<Rightarrow> None
              | Some s2 \<Rightarrow> Some (Inr (), s2)))"

text \<open>
  \<open>similaritySearch\<close>. The nearest-neighbour query of the index is a parameter: it gets
  the rows, the query vector, \<open>nResults\<close> and the where clause, and returns its hits or
  raises. Each hit has an id and, when the index supplies them, a distance, metadata, a
  document and an embedding.
\<close>

record query_hit =
  hit_id :: jsstring
  hit_distance :: "real option"
  hit_metadata :: "prim obj option"
  hit_document :: "prim option"
  hit_embedding :: "EmbeddingVector option"

type_synonym chroma_query =
  "chroma_row list \<Rightarrow> EmbeddingVector \<Rightarrow> int \<Rightarrow> where_clause option \<Rightarrow> jsstring + query_hit list"

definition build_where :: "prim obj option \<Rightarrow> where_clause option" where
  "build_where flt =
     (case flt of
        None \<Rightarrow> None
      | Some f \<Rightarrow>
          if length (object_keys f) > 0
          then (if length (object_keys f) > 1
                then Some (WhereAnd (map (\<lambda>(key, v). [(key, v)]) f))
                else Some (WhereObj f))
          else None)"

definition hit_record :: "query_hit \<Rightarrow> real \<Rightarrow> VectorRecord" where
  "hit_record h distance =
     (let metadata = (case hit_metadata h of None \<Rightarrow> [] | Some m \<Rightarrow> m);
          content =
            (if truthy_opt (hit_document h) then hit_document h
             else if truthy_opt (map_of metadata (js ''text'')) then map_of metadata (js ''text'')
             else Some (PStr []))
      in \<lparr> vr_id = hit_id h,
           vr_content = content,
           vr_vector = Some (case hit_embedding h of None \<Rightarrow> [] | Some v \<Rightarrow> v),
           vr_metadata = AList.update (js ''id'') (PStr (hit_id h)) metadata,
           vr_score = Some (1 - distance) \<rparr>)"

fun map_hits :: "nat \<Rightarrow> query_hit list \<Rightarrow> error + VectorRecord list" where
  "map_hits index [] = Inr []"
| "map_hits index (h # hs) =
     (case hit_distance h of
        None \<Rightarrow> Inl (NoDistance index)
      | Some distance \<Rightarrow>
          (case map_hits (Suc index) hs of
             Inl e \<Rightarrow> Inl e
           | Inr rs \<Rightarrow> Inr (hit_record h distance # rs)))"

definition similaritySearch ::
  "chroma_query \<Rightarrow> EmbeddingVector \<Rightarrow> int \<Rightarrow> prim obj option \<Rightarrow> VectorStoreService
     \<Rightarrow> (error + VectorRecord list) \<times> VectorStoreService" where
  "similaritySearch query vector topK flt s =
     (let s1 = ensureCollection s;
          wh = build_where flt;
          s2 = s1\<lparr> vs_calls := vs_calls s1 @ [Query vector topK wh] \<rparr>
      in case query (stored_rows s1) vector topK wh of
           Inl msg \<Rightarrow> (Inl (External msg), s2)
         | Inr hits \<Rightarrow> (map_hits 0 hits, s2))"

definition deleteDocuments :: "jsstring list \<Rightarrow> VectorStoreService \<Rightarrow> VectorStoreService" where
  "deleteDocuments ids s =
     (let s1 = ensureCollection s
      in if length ids = 0 then s1
         else s1\<lparr> vs_server := map_option (chroma_delete_ids ids) (vs_server s1),
                  vs_calls := vs_calls s1 @ [DeleteIds ids] \<rparr>)"

definition deleteByFilter ::
  "prim obj \<Rightarrow> VectorStoreService \<Rightarrow> (error + unit) \<times> VectorStoreService" where
  "deleteByFilter flt s =
     (let s1 = ensureCollection s
      in if length (object_keys flt) = 0 then (Inr (), s1)
         else (Inr (),
               s1\<lparr> vs_server := map_option (chroma_delete_where flt) (vs_server s1),
                   vs_calls := vs_calls s1 @ [DeleteWhere flt] \<rparr>))"

section \<open>Chunker\<close>

text \<open>
  What \<open>AstSplitterService.split\<close> reads of a syntax node: its id and type, its text, the
  id of its parent, its byte range, its rows and its previous sibling. A capture of the
  grammar's query is a name with a node.
\<close>

datatype SyntaxNode =
  SyntaxNode (node_id: nat) (node_type: jsstring) (node_text: jsstring)
    (node_parent: "nat option") (startIndex: nat) (endIndex: nat)
    (startRow: nat) (endRow: nat) (previousSibling: "SyntaxNode option")

record QueryCapture =
  cap_name :: jsstring
  cap_node :: SyntaxNode

record CodeChunk =
  chunk_id :: jsstring
  chunk_type :: jsstring
  chunk_content :: jsstring
  chunk_startLine :: nat
  chunk_endLine :: nat

text \<open>Decimal digits of a line number, as the template literal prints it.\<close>

fun nat_to_string :: "nat \<Rightarrow> jsstring" where
  "nat_to_string n =
     (if n < 10 then [48 + n] else nat_to_string (n div 10) @ [48 + n mod 10])"

declare nat_to_string.simps [simp del]

definition generateChunkId :: "jsstring \<Rightarrow> jsstring \<Rightarrow> jsstring \<Rightarrow> nat \<Rightarrow> jsstring" where
  "generateChunkId fileName name nodeType startLine =
     fileName @ js '':'' @ name @ js '':'' @ nodeType @ js '':L'' @ nat_to_string startLine"

fun expandContext_from :: "SyntaxNode \<Rightarrow> SyntaxNode option \<Rightarrow> SyntaxNode" where
  "expandContext_from startNode None = startNode"
| "expandContext_from startNode (Some (SyntaxNode i ty tx pa si ei sr er prev)) =
     (if ty = js ''comment'' \<or> ty = js ''decorator''
      then expandContext_from (SyntaxNode i ty tx pa si ei sr er prev) prev
      else startNode)"

definition expandContext :: "SyntaxNode \<Rightarrow> SyntaxNode \<times> SyntaxNode" where
  "expandContext node = (expandContext_from node (previousSibling node), node)"

definition findNameNode :: "QueryCapture list \<Rightarrow> SyntaxNode \<Rightarrow> SyntaxNode option" where
  "findNameNode captures blockNode =
     map_option cap_node
       (find (\<lambda>c. cap_name c = js ''name'' \<and> node_parent (cap_node c) = Some (node_id blockNode))
          captures)"

text \<open>\<open>content.substring(a, b)\<close>: the arguments are swapped when \<open>a > b\<close> and clamped.\<close>

definition substring :: "jsstring \<Rightarrow> nat \<Rightarrow> nat \<Rightarrow> jsstring" where
  "substring s a b = take (max a b - min a b) (drop (min a b) s)"

definition block_chunk :: "jsstring \<Rightarrow> jsstring \<Rightarrow> QueryCapture list \<Rightarrow> QueryCapture \<Rightarrow> CodeChunk" where
  "block_chunk fileName content captures capture =
     (let node = cap_node capture;
          name = (case findNameNode captures node of
                    Some nameNode \<Rightarrow> node_text nameNode
                  | None \<Rightarrow> js ''anonymous'');
          startNode = fst (expandContext node);
          endNode = snd (expandContext node);
          chunkContent = substring content (startIndex startNode) (endIndex endNode);
          chunkStartLine = startRow startNode + 1;
          chunkEndLine = endRow endNode + 1
      in \<lparr> chunk_id = generateChunkId fileName name (node_type node) chunkStartLine,
           chunk_type = node_type node,
           chunk_content = chunkContent,
           chunk_startLine = chunkStartLine,
           chunk_endLine = chunkEndLine \<rparr>)"

definition block_chunks :: "jsstring \<Rightarrow> jsstring \<Rightarrow> QueryCapture list \<Rightarrow> CodeChunk list" where
  "block_chunks fileName content captures =
     map (block_chunk fileName content captures)
       (filter (\<lambda>c. cap_name c = js ''block'') captures)"

text \<open>
  The warning of the chunker on duplicate ids: their number, the file and the ids
  that occur more than once.
\<close>

datatype splitter_warning = DuplicateChunkIds nat jsstring "jsstring list"

section \<open>Collaborators\<close>

record GitChangedFiles =
  ch_added :: "jsstring list"
  ch_modified :: "jsstring list"
  ch_deleted :: "jsstring list"
  ch_renamed :: "jsstring list"

text \<open>
  What the services take from outside the repository: the embedding backend, the
  nearest-neighbour query of the index, the selection by key of the database, library
  functions on strings and paths, the
  grammars and the parser (the captures of a language's query over a text, \<open>None\<close> when
  parsing or the query fails), the id generator, git and the file system. A collaborator
  that can raise returns an error instead. Writes to the index and to the database
  always succeed in this model.
\<close>

record environment =
  env_create :: "jsstring list \<Rightarrow> error + EmbeddingVector list"
  env_query :: chroma_query
  env_findBy :: blob_select
  env_numberToString :: "jsnum \<Rightarrow> jsstring"
  env_toLowerCase :: "jsstring \<Rightarrow> jsstring"
  env_extname :: "jsstring \<Rightarrow> jsstring"
  env_languageMap :: "jsstring \<Rightarrow> jsstring option"
  env_captures :: "jsstring \<Rightarrow> jsstring \<Rightarrow> QueryCapture list option"
  env_ulid :: jsstring
  env_localPath :: "jsstring \<Rightarrow> jsstring"
  env_cloneRepo :: "jsstring \<Rightarrow> jsstring \<Rightarrow> error option"
  env_getCurrentCommit :: "jsstring \<Rightarrow> error + jsstring"
  env_getChangedFiles :: "jsstring \<Rightarrow> jsstring option \<Rightarrow> error + GitChangedFiles"
  env_readFile :: "jsstring \<Rightarrow> jsstring option"
  env_now :: "jsstring \<Rightarrow> nat \<Rightarrow> jsstring"

text \<open>
  \<open>split\<close> returns no chunk when the file has no extension, when no grammar is loaded
  for it or when parsing fails. Otherwise it builds one chunk per \<open>block\<close> capture, checks
  the ids for duplicates, warns about them, and returns every chunk.
\<close>

definition split ::
  "environment \<Rightarrow> jsstring \<Rightarrow> jsstring \<Rightarrow> CodeChunk list \<times> splitter_warning list" where
  "split env fileName content =
     (let ext = env_toLowerCase env (env_extname env fileName)
      in if ext = [] then ([], [])
         else (case env_languageMap env (env_toLowerCase env ext) of
                 None \<Rightarrow> ([], [])
               | Some language \<Rightarrow>
                   (case env_captures env language content of
                      None \<Rightarrow> ([], [])
                    | Some captures \<Rightarrow>
                        (let chunks = block_chunks fileName content captures;
                             chunkIds = map chunk_id chunks;
                             uniqueChunkIds = js_Set chunkIds
                         in (chunks,
                             if length chunkIds \<noteq> length uniqueChunkIds
                             then [DuplicateChunkIds (length chunkIds - length uniqueChunkIds)
                                     fileName (js_Set (duplicates chunkIds))]
                             else [])))))"

section \<open>Retriever\<close>

record RetrievedChunk =
  rc_id :: jsstring
  rc_content :: prim
  rc_repoId :: "prim option"
  rc_metadata :: "prim obj option"

text \<open>
  The record of a repository in the table of repository states (its \<open>fileSignatures\<close>
  are always empty and never read), and the state the services share: the vector store
  adapter, the table of content blobs and the table of repository states.
\<close>

record RepoStateEntity =
  state_id :: jsstring
  state_repoUrl :: jsstring
  state_localPath :: jsstring
  lastProcessedCommit :: "jsstring option"

record world =
  vectorStore :: VectorStoreService
  contentStore :: "ContentBlobEntity list"
  repoStates :: "RepoStateEntity list"

text \<open>\<open>String(pid)\<close>; printing a number is left to the environment.\<close>

fun to_String :: "(jsnum \<Rightarrow> jsstring) \<Rightarrow> prim \<Rightarrow> jsstring" where
  "to_String numberToString (PStr s) = s"
| "to_String numberToString (PNum n) = numberToString n"
| "to_String numberToString (PBool b) = (if b then js ''true'' else js ''false'')"

definition parent_of :: "(jsnum \<Rightarrow> jsstring) \<Rightarrow> VectorRecord \<Rightarrow> jsstring option" where
  "parent_of numberToString res =
     (case map_of (vr_metadata res) (js ''parentId'') of
        None \<Rightarrow> None
      | Some pid \<Rightarrow> if truthy pid then Some (to_String numberToString pid) else None)"

definition orphan_chunk :: "VectorRecord \<Rightarrow> prim \<Rightarrow> RetrievedChunk" where
  "orphan_chunk res content =
     \<lparr> rc_id = vr_id res,
       rc_content = content,
       rc_repoId = map_of (vr_metadata res) (js ''repoId''),
       rc_metadata = Some (vr_metadata res) \<rparr>"

text \<open>
  The loop over the child results, with the set of parent ids (in insertion order) and
  the orphans collected so far. A result with a parent id adds it to the set; a result
  without one is skipped when it has no content (\<open>continue\<close>, which also skips the test
  at the end of the body) and is an orphan otherwise. The loop ends once the set holds
  \<open>k\<close> ids.
\<close>

fun collect_parents ::
  "(jsnum \<Rightarrow> jsstring) \<Rightarrow> int \<Rightarrow> VectorRecord list \<Rightarrow> jsstring list \<times> RetrievedChunk list
     \<Rightarrow> jsstring list \<times> RetrievedChunk list" where
  "collect_parents ns k [] acc = acc"
| "collect_parents ns k (res # rest) (parentIds, orphanChunks) =
     (case parent_of ns res of
        Some pid \<Rightarrow>
          (let parentIds' = set_add pid parentIds
           in if int (length parentIds') \<ge> k then (parentIds', orphanChunks)
              else collect_parents ns k rest (parentIds', orphanChunks))
      | None \<Rightarrow>
          (case vr_content res of
             None \<Rightarrow> collect_parents ns k rest (parentIds, orphanChunks)
           | Some content \<Rightarrow>
               if \<not> truthy content then collect_parents ns k rest (parentIds, orphanChunks)
               else (let orphanChunks' = orphanChunks @ [orphan_chunk res content]
                     in if int (length parentIds) \<ge> k then (parentIds, orphanChunks')
                        else collect_parents ns k rest (parentIds, orphanChunks'))))"

definition parent_chunk :: "ContentBlobEntity \<Rightarrow> RetrievedChunk" where
  "parent_chunk p =
     \<lparr> rc_id = blob_id p,
       rc_content = PStr (blob_content p),
       rc_repoId = map_option PStr (blob_repoId p),
       rc_metadata = blob_metadata p \<rparr>"

definition retrieve ::
  "environment \<Rightarrow> EmbeddingVector \<Rightarrow> int \<Rightarrow> prim obj option \<Rightarrow> world
     \<Rightarrow> (error + RetrievedChunk list) \<times> world" where
  "retrieve env queryVector k metadataFilters w =
     (case similaritySearch (env_query env) queryVector (k * 3) metadataFilters (vectorStore w) of
        (Inl e, vs) \<Rightarrow> (Inl e, w\<lparr> vectorStore := vs \<rparr>)
      | (Inr childResults, vs) \<Rightarrow>
          (let collected = collect_parents (env_numberToString env) k childResults ([], []);
               parentIds = fst collected;
               orphanChunks = snd collected
           in if length parentIds > 0
              then (Inr (map parent_chunk
                           (getParents (env_findBy env) parentIds (contentStore w))),
                    w\<lparr> vectorStore := vs \<rparr>)
              else (Inr orphanChunks, w\<lparr> vectorStore := vs \<rparr>)))"

definition result_chunk :: "VectorRecord \<Rightarrow> RetrievedChunk" where
  "result_chunk chunk =
     \<lparr> rc_id = vr_id chunk,
       rc_content = (case vr_content chunk of None \<Rightarrow> PStr [] | Some c \<Rightarrow> c),
       rc_repoId = map_of (vr_metadata chunk) (js ''repoId''),
       rc_metadata = Some (vr_metadata chunk) \<rparr>"

definition retrieveChunks ::
  "environment \<Rightarrow> EmbeddingVector \<Rightarrow> int \<Rightarrow> prim obj option \<Rightarrow> world
     \<Rightarrow> (error + RetrievedChunk list) \<times> world" where
  "retrieveChunks env queryVector k metadataFilters w =
     (case similaritySearch (env_query env) queryVector k metadataFilters (vectorStore w) of
        (Inl e, vs) \<Rightarrow> (Inl e, w\<lparr> vectorStore := vs \<rparr>)
      | (Inr chunkResults, vs) \<Rightarrow>
          (Inr (map result_chunk (filter (\<lambda>chunk. truthy_opt (vr_content chunk)) chunkResults)),
           w\<lparr> vectorStore := vs \<rparr>))"

text \<open>
  The result as the specification words it: the blobs of the collected parent ids in the
  insertion order of the ids, an id without a blob being left out.
\<close>

definition parents_in_insertion_order ::
  "jsstring list \<Rightarrow> ContentBlobEntity list \<Rightarrow> ContentBlobEntity list" where
  "parents_in_insertion_order parentIds table =
     List.map_filter (\<lambda>pid. find (\<lambda>b. blob_id b = pid) table) parentIds"

section \<open>Query service\<close>

record QuerySearchRequest =
  req_prompt :: jsstring
  req_k :: "jsnum option"
  req_meta :: "prim obj option"

definition DEFAULT_K :: int where
  "DEFAULT_K = 5"

definition MAX_K :: int where
  "MAX_K = 100"

text \<open>\<open>Number.isInteger\<close>: the integer a number is, if it is one.\<close>

fun as_integer :: "jsnum \<Rightarrow> int option" where
  "as_integer (Finite r) = (if of_int \<lfloor>r\<rfloor> = r then Some \<lfloor>r\<rfloor> else None)"
| "as_integer NaN = None"
| "as_integer PosInf = None"
| "as_integer NegInf = None"

definition normalizeK :: "jsnum option \<Rightarrow> int" where
  "normalizeK k =
     (case k of
        None \<Rightarrow> DEFAULT_K
      | Some n \<Rightarrow>
          (case as_integer n of
             None \<Rightarrow> DEFAULT_K
           | Some i \<Rightarrow> if i < 1 then DEFAULT_K else min i MAX_K))"

definition search ::
  "environment \<Rightarrow> jsstring \<Rightarrow> QuerySearchRequest \<Rightarrow> world
     \<Rightarrow> (error + RetrievedChunk list) \<times> world" where
  "search env repoId params w =
     (let k = normalizeK (req_k params);
          metaFilters = spread [(js ''repoId'', PStr repoId)]
                          (case req_meta params of None \<Rightarrow> [] | Some m \<Rightarrow> m)
      in case fst (embedDocuments (env_create env) (Some [Some (req_prompt params)])) of
           Inl e \<Rightarrow> (Inl e, w)
         | Inr [] \<Rightarrow> (Inl BadRequest, w)
         | Inr (queryVector # others) \<Rightarrow> retrieve env queryVector k (Some metaFilters) w)"

definition searchChunks ::
  "environment \<Rightarrow> jsstring \<Rightarrow> QuerySearchRequest \<Rightarrow> world
     \<Rightarrow> (error + RetrievedChunk list) \<times> world" where
  "searchChunks env repoId params w =
     (let k = normalizeK (req_k params);
          metaFilters = spread [(js ''repoId'', PStr repoId)]
                          (case req_meta params of None \<Rightarrow> [] | Some m \<Rightarrow> m)
      in case fst (embedDocuments (env_create env) (Some [Some (req_prompt params)])) of
           Inl e \<Rightarrow> (Inl e, w)
         | Inr [] \<Rightarrow> (Inl BadRequest, w)
         | Inr (queryVector # others) \<Rightarrow> retrieveChunks env queryVector k (Some metaFilters) w)"

section \<open>Ingestion worker\<close>

text \<open>
  The payload of a job as far as \<open>process\<close> reads it. \<open>meta\<close> arrives as parsed JSON and
  may hold values that are not primitives.
\<close>

record RepoIngestionJobData =
  job_repoUrl :: jsstring
  job_userId :: "jsstring option"
  job_repoId :: jsstring
  job_meta :: "jsval obj option"

definition reservedFields :: "jsstring list" where
  "reservedFields =
     [js ''id'', js ''category'', js ''repositoryId'', js ''repoId'', js ''workspaceId'',
      js ''userId'', js ''timestamp'', js ''filePath'', js ''fileType'', js ''chunkIndex'',
      js ''chunkType'', js ''parentId'', js ''functionName'', js ''startLine'', js ''endLine'']"

fun sanitize_entries :: "jsval obj \<Rightarrow> prim obj \<Rightarrow> prim obj" where
  "sanitize_entries [] sanitized = sanitized"
| "sanitize_entries ((key, v) # entries) sanitized =
     (if key \<in> set reservedFields then sanitize_entries entries sanitized
      else (case v of
              VPrim p \<Rightarrow> sanitize_entries entries (AList.update key p sanitized)
            | VNull \<Rightarrow> sanitize_entries entries sanitized
            | VUndefined \<Rightarrow> sanitize_entries entries sanitized
            | VArray \<Rightarrow> sanitize_entries entries sanitized
            | VObject \<Rightarrow> sanitize_entries entries sanitized))"

definition sanitizeMeta :: "jsval obj option \<Rightarrow> prim obj" where
  "sanitizeMeta meta = (case meta of None \<Rightarrow> [] | Some m \<Rightarrow> sanitize_entries m [])"

definition binaryExtensions :: "jsstring list" where
  "binaryExtensions =
     [js ''.png'', js ''.jpg'', js ''.jpeg'', js ''.gif'', js ''.bmp'', js ''.ico'', js ''.svg'',
      js ''.webp'', js ''.tiff'',
      js ''.mp4'', js ''.avi'', js ''.mov'', js ''.wmv'', js ''.flv'', js ''.mkv'',
      js ''.mp3'', js ''.wav'', js ''.ogg'', js ''.flac'', js ''.aac'',
      js ''.zip'', js ''.tar'', js ''.gz'', js ''.rar'', js ''.7z'', js ''.bz2'',
      js ''.exe'', js ''.dll'', js ''.so'', js ''.dylib'', js ''.bin'', js ''.class'', js ''.pyc'',
      js ''.o'', js ''.a'',
      js ''.pdf'', js ''.doc'', js ''.docx'', js ''.xls'', js ''.xlsx'', js ''.ppt'', js ''.pptx'',
      js ''.ttf'', js ''.otf'', js ''.woff'', js ''.woff2'', js ''.eot'',
      js ''.db'', js ''.sqlite'', js ''.sqlite3'',
      js ''.wasm'', js ''.lock'']"

text \<open>
  \<open>filePath.lastIndexOf('.')\<close> is the index of the last dot or \<open>-1\<close>;
  \<open>substring\<close> takes a negative start for zero.
\<close>

fun lastIndexOf :: "jsstring \<Rightarrow> nat \<Rightarrow> int" where
  "lastIndexOf [] c = - 1"
| "lastIndexOf (x # xs) c =
     (let i = lastIndexOf xs c
      in if i \<ge> 0 then i + 1 else if x = c then 0 else - 1)"

definition isBinaryFile :: "environment \<Rightarrow> jsstring \<Rightarrow> bool" where
  "isBinaryFile env filePath =
     (let ext = drop (nat (lastIndexOf filePath 46)) (env_toLowerCase env filePath)
      in ext \<in> set binaryExtensions)"

definition save_state :: "RepoStateEntity \<Rightarrow> RepoStateEntity list \<Rightarrow> RepoStateEntity list" where
  "save_state st table =
     (if state_id st \<in> set (map state_id table)
      then map (\<lambda>x. if state_id x = state_id st then st else x) table
      else table @ [st])"

text \<open>
  \<open>getRepoState\<close>: the state of the URL; when there is none, the repository is cloned
  and a state without a processed commit is saved. For an existing state the function
  only logs.
\<close>

definition getRepoState ::
  "environment \<Rightarrow> jsstring \<Rightarrow> world \<Rightarrow> (error + RepoStateEntity) \<times> world" where
  "getRepoState env repoUrl w =
     (case find (\<lambda>st. state_repoUrl st = repoUrl) (repoStates w) of
        None \<Rightarrow>
          (let repoId = env_ulid env;
               localPath = env_localPath env repoId
           in case env_cloneRepo env repoUrl localPath of
                Some e \<Rightarrow> (Inl e, w)
              | None \<Rightarrow>
                  (let st = \<lparr> state_id = repoId, state_repoUrl = repoUrl,
                              state_localPath = localPath, lastProcessedCommit = None \<rparr>
                   in (Inr st, w\<lparr> repoStates := save_state st (repoStates w) \<rparr>)))
      | Some st \<Rightarrow> (Inr st, w))"

text \<open>\<open>chunk.id.split(':')\<close>, and \<open>idParts[1] || 'anonymous'\<close>.\<close>

fun split_string :: "nat \<Rightarrow> jsstring \<Rightarrow> jsstring list" where
  "split_string sep [] = [[]]"
| "split_string sep (c # cs) =
     (if c = sep then [] # split_string sep cs
      else (case split_string sep cs of
              [] \<Rightarrow> [[c]]
            | part # parts \<Rightarrow> (c # part) # parts))"

definition functionName_of :: "jsstring \<Rightarrow> jsstring" where
  "functionName_of chunkId =
     (case split_string 58 chunkId of
        first # second # others \<Rightarrow> if second \<noteq> [] then second else js ''anonymous''
      | [first] \<Rightarrow> js ''anonymous''
      | [] \<Rightarrow> js ''anonymous'')"

definition nth_opt :: "'a list \<Rightarrow> nat \<Rightarrow> 'a option" where
  "nth_opt xs i = (if i < length xs then Some (xs ! i) else None)"

text \<open>
  The record of one chunk: the base metadata, then the sanitized meta of the job spread
  over it, then \<open>id\<close>, \<open>category\<close>, \<open>repositoryId\<close> and \<open>repoId\<close> assigned last.
\<close>

definition baseMetadata ::
  "environment \<Rightarrow> RepoIngestionJobData \<Rightarrow> RepoStateEntity \<Rightarrow> jsstring \<Rightarrow> nat \<Rightarrow> CodeChunk
     \<Rightarrow> prim obj" where
  "baseMetadata env job st file idx chunk =
     [(js ''id'', PStr (chunk_id chunk)),
      (js ''category'', PStr (js ''repository'')),
      (js ''workspaceId'', PStr (js ''workspace'')),
      (js ''userId'', PStr (case job_userId job of
                              None \<Rightarrow> js ''system''
                            | Some u \<Rightarrow> if u \<noteq> [] then u else js ''system'')),
      (js ''timestamp'', PStr (env_now env file idx)),
      (js ''filePath'', PStr file),
      (js ''fileType'', PStr (env_extname env file)),
      (js ''chunkIndex'', PNum (Finite (of_nat idx))),
      (js ''chunkType'', PStr (chunk_type chunk)),
      (js ''parentId'', PStr file),
      (js ''repositoryId'', PStr (state_id st)),
      (js ''functionName'', PStr (functionName_of (chunk_id chunk))),
      (js ''startLine'', PNum (Finite (of_nat (chunk_startLine chunk)))),
      (js ''endLine'', PNum (Finite (of_nat (chunk_endLine chunk))))]"

definition chunk_record ::
  "environment \<Rightarrow> RepoIngestionJobData \<Rightarrow> RepoStateEntity \<Rightarrow> prim obj \<Rightarrow> jsstring
     \<Rightarrow> EmbeddingVector list \<Rightarrow> nat \<Rightarrow> CodeChunk \<Rightarrow> VectorRecord" where
  "chunk_record env job st sanitizedMeta file vectors idx chunk =
     (let base = baseMetadata env job st file idx chunk;
          metadata =
            AList.update (js ''repoId'') (PStr (job_repoId job))
              (AList.update (js ''repositoryId'') (PStr (state_id st))
                 (AList.update (js ''category'') (PStr (js ''repository''))
                    (AList.update (js ''id'') (PStr (chunk_id chunk))
                       (spread base sanitizedMeta))))
      in \<lparr> vr_id = chunk_id chunk,
           vr_content = Some (PStr (chunk_content chunk)),
           vr_vector = nth_opt vectors idx,
           vr_metadata = metadata,
           vr_score = None \<rparr>)"

definition chunk_records ::
  "environment \<Rightarrow> RepoIngestionJobData \<Rightarrow> RepoStateEntity \<Rightarrow> prim obj \<Rightarrow> jsstring
     \<Rightarrow> EmbeddingVector list \<Rightarrow> CodeChunk list \<Rightarrow> VectorRecord list" where
  "chunk_records env job st sanitizedMeta file vectors semanticChunks =
     map (\<lambda>(idx, chunk). chunk_record env job st sanitizedMeta file vectors idx chunk)
       (zip [0 ..< length semanticChunks] semanticChunks)"

text \<open>
  The loop over the added and modified files. A binary file, a file that cannot be read
  and a file without a chunk of content are skipped (the last one after its blob is
  saved); an error of the embedding backend or of \<open>upsert\<close> ends the job. The value is
  \<open>None\<close> when \<open>upsert\<close> does not return.
\<close>

fun process_files ::
  "environment \<Rightarrow> RepoIngestionJobData \<Rightarrow> RepoStateEntity \<Rightarrow> prim obj \<Rightarrow> jsstring list
     \<Rightarrow> world \<Rightarrow> ((error + unit) \<times> world) option" where
  "process_files env job st sanitizedMeta [] w = Some (Inr (), w)"
| "process_files env job st sanitizedMeta (file # files) w =
     (if isBinaryFile env file then process_files env job st sanitizedMeta files w
      else (case env_readFile env (state_localPath st @ js ''/'' @ file) of
              None \<Rightarrow> process_files env job st sanitizedMeta files w
            | Some content \<Rightarrow>
                (let w1 = w\<lparr> contentStore :=
                               saveParent file content (Some (job_repoId job))
                                 (Some sanitizedMeta) (contentStore w) \<rparr>;
                     allChunks = fst (split env file content);
                     semanticChunks =
                       filter (\<lambda>chunk. chunk_content chunk \<noteq> []
                                 \<and> length (trim (chunk_content chunk)) > 0) allChunks
                 in if length semanticChunks = 0
                    then process_files env job st sanitizedMeta files w1
                    else (let batchTexts = map chunk_content semanticChunks
                          in case fst (embedDocuments (env_create env)
                                         (Some (map Some batchTexts))) of
                               Inl e \<Rightarrow> Some (Inl e, w1)
                             | Inr vectors \<Rightarrow>
                                 (let records = chunk_records env job st sanitizedMeta file
                                                  vectors semanticChunks
                                  in case upsert records (vectorStore w1) of
                                       None \<Rightarrow> None
                                     | Some (Inl e, vs) \<Rightarrow> Some (Inl e, w1\<lparr> vectorStore := vs \<rparr>)
                                     | Some (Inr u, vs) \<Rightarrow>
                                         process_files env job st sanitizedMeta files
                                           (w1\<lparr> vectorStore := vs \<rparr>))))))"

text \<open>\<open>state.lastProcessedCommit || undefined\<close>: an empty string counts as no commit.\<close>

definition or_undefined :: "jsstring option \<Rightarrow> jsstring option" where
  "or_undefined c = (case c of None \<Rightarrow> None | Some x \<Rightarrow> if x \<noteq> [] then Some x else None)"

text \<open>
  \<open>process\<close>: the result is the string the job returns (\<open>None\<close> for \<open>undefined\<close>) or the
  error that ends it, with the state of the stores after the job.
\<close>

definition process ::
  "environment \<Rightarrow> RepoIngestionJobData \<Rightarrow> world \<Rightarrow> ((error + jsstring option) \<times> world) option" where
  "process env job w =
     (let sanitizedMeta = sanitizeMeta (job_meta job)
      in case getRepoState env (job_repoUrl job) w of
           (Inl e, w1) \<Rightarrow> Some (Inl e, w1)
         | (Inr st, w1) \<Rightarrow>
             (case env_getCurrentCommit env (state_localPath st) of
                Inl e \<Rightarrow> Some (Inl e, w1)
              | Inr currentCommit \<Rightarrow>
                  (case env_getChangedFiles env (state_localPath st)
                          (or_undefined (lastProcessedCommit st)) of
                     Inl e \<Rightarrow> Some (Inl e, w1)
                   | Inr changes \<Rightarrow>
                       if length (ch_added changes) = 0 \<and> length (ch_modified changes) = 0
                       then Some (Inr (Some (js ''No changes detected'')), w1)
                       else (let w2 = (if length (ch_deleted changes) > 0
                                       then w1\<lparr> vectorStore :=
                                                  deleteDocuments (ch_deleted changes)
                                                    (vectorStore w1) \<rparr>
                                       else w1);
                                 filesToProcess = ch_added changes @ ch_modified changes
                             in case process_files env job st sanitizedMeta filesToProcess w2 of
                                  None \<Rightarrow> None
                                | Some (Inl e, w3) \<Rightarrow> Some (Inl e, w3)
                                | Some (Inr u, w3) \<Rightarrow>
                                    (let st' = st\<lparr> lastProcessedCommit := Some currentCommit \<rparr>
                                     in Some (Inr None,
                                              w3\<lparr> repoStates :=
                                                    save_state st' (repoStates w3) \<rparr>))))))"

section \<open>Notions used in the statements\<close>

text \<open>Calls to the index that delete rows, and calls that write rows.\<close>

fun is_delete_call :: "chroma_call \<Rightarrow> bool" where
  "is_delete_call (DeleteIds ids) = True"
| "is_delete_call (DeleteWhere flt) = True"
| "is_delete_call c = False"

fun is_upsert_call :: "chroma_call \<Rightarrow> bool" where
  "is_upsert_call (Upsert batch) = True"
| "is_upsert_call c = False"

text \<open>
  The child results without a parent id and with content, as retrieved chunks; and the
  parent ids that the loop of \<open>retrieve\<close> collects: the first \<open>k\<close> distinct parent ids of
  the child results, in the order of their first occurrence.
\<close>

definition orphan_hits :: "(jsnum \<Rightarrow> jsstring) \<Rightarrow> VectorRecord list \<Rightarrow> RetrievedChunk list" where
  "orphan_hits ns childResults =
     List.map_filter
       (\<lambda>res. case parent_of ns res of
                 Some pid \<Rightarrow> None
               | None \<Rightarrow> (case vr_content res of
                            None \<Rightarrow> None
                          | Some content \<Rightarrow>
                              if truthy content then Some (orphan_chunk res content) else None))
       childResults"

definition collected_parent_ids ::
  "(jsnum \<Rightarrow> jsstring) \<Rightarrow> int \<Rightarrow> VectorRecord list \<Rightarrow> jsstring list" where
  "collected_parent_ids ns k childResults =
     take (nat k) (js_Set (List.map_filter (parent_of ns) childResults))"

text \<open>
  Parent-mode retrieval as the specification words it: as \<open>retrieve\<close>, but the blobs come
  in the insertion order of the parent ids.
\<close>

definition spec_retrieve ::
  "environment \<Rightarrow> EmbeddingVector \<Rightarrow> int \<Rightarrow> prim obj option \<Rightarrow> world
     \<Rightarrow> (error + RetrievedChunk list) \<times> world" where
  "spec_retrieve env queryVector k metadataFilters w =
     (case similaritySearch (env_query env) queryVector (k * 3) metadataFilters (vectorStore w) of
        (Inl e, vs) \<Rightarrow> (Inl e, w\<lparr> vectorStore := vs \<rparr>)
      | (Inr childResults, vs) \<Rightarrow>
          (let parentIds = collected_parent_ids (env_numberToString env) k childResults
           in if parentIds \<noteq> []
              then (Inr (map parent_chunk
                           (parents_in_insertion_order parentIds (contentStore w))),
                    w\<lparr> vectorStore := vs \<rparr>)
              else (Inr (orphan_hits (env_numberToString env) childResults),
                    w\<lparr> vectorStore := vs \<rparr>)))"

text \<open>
  The contract of the nearest-neighbour query that the boundary cases of \<open>k\<close> rely on:
  it returns at most \<open>nResults\<close> hits. And the list of results of a search (empty for an
  error).
\<close>

definition query_contract :: "chroma_query \<Rightarrow> bool" where
  "query_contract q \<longleftrightarrow>
     (\<forall>rows v n wh hits. q rows v n wh = Inr hits \<longrightarrow> length hits \<le> nat n)"

definition results_of :: "(error + 'a list) \<times> 'b \<Rightarrow> 'a list" where
  "results_of r = (case fst r of Inl e \<Rightarrow> [] | Inr rs \<Rightarrow> rs)"

text \<open>
  The contract of the database's selection by key: the answer holds the rows of the
  table whose key is among the ids, each as often as the table holds it, in any order.
\<close>

definition select_contract :: "blob_select \<Rightarrow> bool" where
  "select_contract findBy \<longleftrightarrow>
     (\<forall>ids table b.
        count_list (findBy ids table) b
          = count_list (filter (\<lambda>x. blob_id x \<in> set ids) table) b)"

text \<open>
  The rows handed to the index's \<open>upsert\<close> between two states of the services: the rows
  of the upsert calls that the later state has beyond the calls of the earlier one. The
  calls of a later state extend those of an earlier one by calls that write rows of a
  given set only. The chunks of a file that \<open>process\<close> keeps (those with content other
  than white space). The rows that a job can build from a list of files: the row of the
  record of the chunk at some index among the kept chunks of a readable file of the
  list. And the state after a job that returned.
\<close>

fun rows_of_call :: "chroma_call \<Rightarrow> chroma_row list" where
  "rows_of_call (Upsert batch) = batch"
| "rows_of_call c = []"

definition rows_written :: "world \<Rightarrow> world \<Rightarrow> chroma_row list" where
  "rows_written w w' =
     concat (map rows_of_call
               (drop (length (vs_calls (vectorStore w))) (vs_calls (vectorStore w'))))"

definition extends :: "VectorStoreService \<Rightarrow> VectorStoreService \<Rightarrow> chroma_row set \<Rightarrow> bool" where
  "extends s s' R \<longleftrightarrow>
     (\<exists>extra. vs_calls s' = vs_calls s @ extra \<and> set (concat (map rows_of_call extra)) \<subseteq> R)"

definition semantic_chunks :: "environment \<Rightarrow> jsstring \<Rightarrow> jsstring \<Rightarrow> CodeChunk list" where
  "semantic_chunks env path content =
     filter (\<lambda>chunk. chunk_content chunk \<noteq> [] \<and> length (trim (chunk_content chunk)) > 0)
       (fst (split env path content))"

definition job_rows ::
  "environment \<Rightarrow> RepoIngestionJobData \<Rightarrow> RepoStateEntity \<Rightarrow> prim obj \<Rightarrow> jsstring list
     \<Rightarrow> chroma_row set" where
  "job_rows env job st sanitizedMeta files =
     {row. \<exists>path content vectors idx.
             path \<in> set files
             \<and> env_readFile env (state_localPath st @ js ''/'' @ path) = Some content
             \<and> idx < length (semantic_chunks env path content)
             \<and> row = to_row (chunk_record env job st sanitizedMeta path vectors idx
                                (semantic_chunks env path content ! idx))}"

definition world_after :: "('r \<times> world) option \<Rightarrow> world \<Rightarrow> world" where
  "world_after outcome w = (case outcome of None \<Rightarrow> w | Some (r, w') \<Rightarrow> w')"

section \<open>A sample deployment\<close>

text \<open>
  A small instance on which the statements are evaluated. The index answers a query
  with the first \<open>nResults\<close> rows that satisfy the where clause, in their stored order and
  at distance zero. The database answers a selection by key in the order of its table,
  as a sequential scan does; a second database answers in the order of the id list.
  The grammar finds two functions named \<open>f\<close> on the first line of any TypeScript file.
  The repository \<open>demo\<close> was ingested at commit \<open>c0\<close> and is at commit \<open>c1\<close>; the index
  holds one chunk of \<open>src/b.ts\<close> and one of \<open>src/a.ts\<close>, in this order, the content store
  the blobs of both files, \<open>src/a.ts\<close> first.
\<close>

definition hit_of_row :: "chroma_row \<Rightarrow> query_hit" where
  "hit_of_row r =
     \<lparr> hit_id = row_id r, hit_distance = Some 0, hit_metadata = Some (row_metadata r),
       hit_document = Some (row_document r), hit_embedding = None \<rparr>"

fun where_holds :: "where_clause option \<Rightarrow> prim obj \<Rightarrow> bool" where
  "where_holds None md = True"
| "where_holds (Some (WhereObj f)) md = matches f md"
| "where_holds (Some (WhereAnd fs)) md = list_all (\<lambda>f. matches f md) fs"

definition sample_query :: chroma_query where
  "sample_query rows vector nResults wh =
     Inr (map hit_of_row (take (nat nResults) (filter (\<lambda>r. where_holds wh (row_metadata r)) rows)))"

definition table_order :: blob_select where
  "table_order ids table = filter (\<lambda>b. blob_id b \<in> set ids) table"

definition id_list_order :: blob_select where
  "id_list_order ids table =
     concat (map (\<lambda>i. filter (\<lambda>b. blob_id b = i) table) (remdups ids))"

definition sample_captures :: "QueryCapture list" where
  "sample_captures =
     [\<lparr> cap_name = js ''block'',
        cap_node = SyntaxNode 1 (js ''function_declaration'') (js ''function f() {}'') None
                     0 15 0 0 None \<rparr>,
      \<lparr> cap_name = js ''name'',
        cap_node = SyntaxNode 2 (js ''identifier'') (js ''f'') (Some 1) 9 10 0 0 None \<rparr>,
      \<lparr> cap_name = js ''block'',
        cap_node = SyntaxNode 3 (js ''function_declaration'') (js ''function f() {}'') None
                     16 31 0 0 None \<rparr>,
      \<lparr> cap_name = js ''name'',
        cap_node = SyntaxNode 4 (js ''identifier'') (js ''f'') (Some 3) 25 26 0 0 None \<rparr>]"

definition sample_env :: "GitChangedFiles \<Rightarrow> environment" where
  "sample_env changes =
     \<lparr> env_create = (\<lambda>texts. Inr (map (\<lambda>t. [1]) texts)),
       env_query = sample_query,
       env_findBy = table_order,
       env_numberToString = (\<lambda>n. []),
       env_toLowerCase = (\<lambda>s. s),
       env_extname = (\<lambda>p. if lastIndexOf p 46 \<le> 0 then [] else drop (nat (lastIndexOf p 46)) p),
       env_languageMap = (\<lambda>ext. if ext = js ''.ts'' then Some (js ''typescript'') else None),
       env_captures = (\<lambda>language content. Some sample_captures),
       env_ulid = js ''01REPO'',
       env_localPath = (\<lambda>ident. js ''/data/'' @ ident),
       env_cloneRepo = (\<lambda>url p. None),
       env_getCurrentCommit = (\<lambda>p. Inr (js ''c1'')),
       env_getChangedFiles = (\<lambda>p c. Inr changes),
       env_readFile = (\<lambda>p. Some (js ''function f() {} function f() {}'')),
       env_now = (\<lambda>p idx. js ''2025-01-01T00:00:00.000Z'') \<rparr>"

definition row_b :: chroma_row where
  "row_b = \<lparr> row_id = js ''src/b.ts:g:function_declaration:L1'', row_embedding = Some [1],
             row_metadata = [(js ''parentId'', PStr (js ''src/b.ts'')),
                             (js ''repoId'', PStr (js ''demo''))],
             row_document = PStr (js ''function g() {}'') \<rparr>"

definition row_a :: chroma_row where
  "row_a = \<lparr> row_id = js ''src/a.ts:f:function_declaration:L1'', row_embedding = Some [1],
             row_metadata = [(js ''parentId'', PStr (js ''src/a.ts'')),
                             (js ''repoId'', PStr (js ''demo''))],
             row_document = PStr (js ''function f() {}'') \<rparr>"

definition blob_a :: ContentBlobEntity where
  "blob_a = \<lparr> blob_id = js ''src/a.ts'', blob_repoId = Some (js ''demo''),
              blob_content = js ''function f() {}'', blob_metadata = Some [] \<rparr>"

definition blob_b :: ContentBlobEntity where
  "blob_b = \<lparr> blob_id = js ''src/b.ts'', blob_repoId = Some (js ''demo''),
              blob_content = js ''function g() {}'', blob_metadata = Some [] \<rparr>"

definition sample_store :: VectorStoreService where
  "sample_store = \<lparr> vs_collection = True, vs_batchSize = 1000,
                    vs_server = Some [row_b, row_a], vs_calls = [] \<rparr>"

definition sample_state :: RepoStateEntity where
  "sample_state = \<lparr> state_id = js ''01REPO'', state_repoUrl = js ''https://example.org/demo.git'',
                    state_localPath = js ''/data/01REPO'', lastProcessedCommit = Some (js ''c0'') \<rparr>"

definition sample_world :: world where
  "sample_world = \<lparr> vectorStore = sample_store, contentStore = [blob_a, blob_b],
                    repoStates = [sample_state] \<rparr>"

definition sample_job :: RepoIngestionJobData where
  "sample_job = \<lparr> job_repoUrl = js ''https://example.org/demo.git'', job_userId = None,
                  job_repoId = js ''demo'', job_meta = None \<rparr>"

definition no_changes :: GitChangedFiles where
  "no_changes = \<lparr> ch_added = [], ch_modified = [], ch_deleted = [], ch_renamed = [] \<rparr>"

definition deletion_only :: GitChangedFiles where
  "deletion_only = \<lparr> ch_added = [], ch_modified = [], ch_deleted = [js ''src/b.ts''],
                     ch_renamed = [] \<rparr>"

definition deletion_and_image :: GitChangedFiles where
  "deletion_and_image = \<lparr> ch_added = [js ''logo.png''], ch_modified = [],
                          ch_deleted = [js ''src/b.ts''], ch_renamed = [] \<rparr>"

definition sample_request :: "jsnum option \<Rightarrow> QuerySearchRequest" where
  "sample_request k = \<lparr> req_prompt = js ''token refresh'', req_k = k, req_meta = None \<rparr>"

definition sample_children :: "VectorRecord list" where
  "sample_children = map (\<lambda>r. hit_record (hit_of_row r) 0) [row_b, row_a]"

definition sample_source :: jsstring where
  "sample_source = js ''function f() {} function f() {}''"

definition sample_records :: "VectorRecord list" where
  "sample_records =
     chunk_records (sample_env no_changes) sample_job sample_state [] (js ''src/a.ts'')
       [[1], [1]] (fst (split (sample_env no_changes) (js ''src/a.ts'') sample_source))"

text \<open>
  A second job on the sample: \<open>src/a.ts\<close> was added, the grammar finds one function in
  it, and the meta of the job names every reserved key, besides the key \<open>team\<close> and a
  nested object. The chunk of the file and the row that the job stores follow.
\<close>

definition a_ts_added :: GitChangedFiles where
  "a_ts_added = \<lparr> ch_added = [js ''src/a.ts''], ch_modified = [], ch_deleted = [],
                  ch_renamed = [] \<rparr>"

definition single_function_env :: environment where
  "single_function_env =
     (sample_env a_ts_added)\<lparr> env_captures := (\<lambda>language content. Some (take 2 sample_captures)) \<rparr>"

definition meddling_job :: RepoIngestionJobData where
  "meddling_job =
     sample_job\<lparr> job_meta :=
       Some (map (\<lambda>key. (key, VPrim (PStr (js ''hacked'')))) reservedFields
             @ [(js ''team'', VPrim (PStr (js ''backend''))),
                (js ''nested'', VObject)]) \<rparr>"

definition sample_chunk :: CodeChunk where
  "sample_chunk =
     \<lparr> chunk_id = js ''src/a.ts:f:function_declaration:L1'',
       chunk_type = js ''function_declaration'',
       chunk_content = js ''function f() {}'',
       chunk_startLine = 1,
       chunk_endLine = 1 \<rparr>"

definition stored_row :: chroma_row where
  "stored_row =
     \<lparr> row_id = js ''src/a.ts:f:function_declaration:L1'',
       row_embedding = Some [1],
       row_metadata =
         [(js ''id'', PStr (js ''src/a.ts:f:function_declaration:L1'')),
          (js ''category'', PStr (js ''repository'')),
          (js ''workspaceId'', PStr (js ''workspace'')),
          (js ''userId'', PStr (js ''system'')),
          (js ''timestamp'', PStr (js ''2025-01-01T00:00:00.000Z'')),
          (js ''filePath'', PStr (js ''src/a.ts'')),
          (js ''fileType'', PStr (js ''.ts'')),
          (js ''chunkIndex'', PNum (Finite 0)),
          (js ''chunkType'', PStr (js ''function_declaration'')),
          (js ''parentId'', PStr (js ''src/a.ts'')),
          (js ''repositoryId'', PStr (js ''01REPO'')),
          (js ''functionName'', PStr (js ''f'')),
          (js ''startLine'', PNum (Finite 1)),
          (js ''endLine'', PNum (Finite 1)),
          (js ''team'', PStr (js ''backend'')),
          (js ''repoId'', PStr (js ''demo''))],
       row_document = PStr (js ''function f() {}'') \<rparr>"

text \<open>
  An index whose rows name no parent: three chunks stored before parents were recorded.
\<close>

definition orphan_row :: "string \<Rightarrow> chroma_row" where
  "orphan_row ident =
     \<lparr> row_id = js ident, row_embedding = Some [1],
       row_metadata = [(js ''repoId'', PStr (js ''demo''))],
       row_document = PStr (js ''function h() {}'') \<rparr>"

definition orphan_world :: world where
  "orphan_world =
     sample_world\<lparr> vectorStore :=
       sample_store\<lparr> vs_server :=
         Some [orphan_row ''o1'', orphan_row ''o2'', orphan_row ''o3''] \<rparr> \<rparr>"

section \<open>Content sanitization\<close>

lemma sanitizeContent_filter:
  "sanitizeContent s = filter (\<lambda>c. \<not> control_class c) s"
proof -
  have "filter (\<lambda>c. \<not> control_class c) (filter (\<lambda>c. c \<noteq> 0) s)
        = filter (\<lambda>c. \<not> control_class c) s"
    by (induction s) (auto simp: control_class_def)
  then show ?thesis
    by (simp add: sanitizeContent_def)
qed

lemma control_class_iff: "control_class c \<longleftrightarrow> c0_disallowed c \<or> c = 127"
  by (auto simp: control_class_def c0_disallowed_def)

text \<open>
  C6, as stated: the sanitization removes exactly the null code unit and the C0 controls
  other than LF, CR and TAB. It fails on DEL (0x7F), which the character class of the
  source also lists: the one-unit string DEL is emptied.
\<close>

theorem sanitizeContent_DEL_counterexample:
  "sanitizeContent [127] \<noteq> spec_sanitizeContent [127]"
  by (simp add: sanitizeContent_def spec_sanitizeContent_def control_class_def
      c0_disallowed_def)

text \<open>
  C6, amended: the sanitization removes exactly the null code unit, the C0 controls other
  than LF, CR and TAB, and DEL (0x7F); every other code unit is kept, in order.
\<close>

theorem sanitizeContent_removes_exactly:
  "sanitizeContent s = filter (\<lambda>c. \<not> (c0_disallowed c \<or> c = 127)) s"
  by (simp add: sanitizeContent_filter control_class_iff)

text \<open>
  C9: the sanitization is idempotent, sanitizing sanitized content returns it unchanged.
\<close>

theorem sanitizeContent_idempotent:
  "sanitizeContent (sanitizeContent s) = sanitizeContent s"
  by (simp add: sanitizeContent_filter)

section \<open>Sanitization of texts to embed\<close>

text \<open>
  The model of the replacement agrees with the cases that the test suite of the
  repository checks for \<open>embedDocuments\<close>: line feeds inside a text become spaces, white
  space around it is stripped, empty and blank texts and \<open>null\<close> are dropped.
\<close>

lemma embedDocuments_test_cases:
  "sanitize_text (js ''text\<newline>with\<newline>newlines'') = js ''text with newlines''"
  "sanitize_text (js ''  text with spaces  '') = js ''text with spaces''"
  "sanitize_text (js ''  \<newline>text\<newline> with\<newline> newlines\<newline>  '')
     = js ''text  with  newlines''"
  "processTexts [Some [], Some (js ''   ''), Some (js ''\<newline>\<newline>''),
                 Some (js ''valid text'')] = [js ''valid text'']"
  "processTexts [None, Some (js ''valid text''), None] = [js ''valid text'']"
  by code_simp+

text \<open>
  C5: the claim fails on the code at the input list that holds the single text \<open>"\n"\<close>.
  The first alternative of the regular expression matches the line feed, the callback
  turns it into a space, and the backend is called with one text of one space, although
  the text is empty once stripped and is to be dropped without a call. In the same way the
  text \<open>"abc\n"\<close> is sent as \<open>"abc "\<close>, not stripped to \<open>"abc"\<close>.
\<close>

theorem embedDocuments_lone_line_feed:
  "embedDocuments create (Some [Some (js ''\<newline>'')]) = (create [js '' ''], [[js '' '']])
   \<and> spec_sanitize_text (js ''\<newline>'') = []
   \<and> embedDocuments create (Some [Some (js ''abc\<newline>'')])
       = (create [js ''abc ''], [[js ''abc '']])
   \<and> spec_sanitize_text (js ''abc\<newline>'') = js ''abc''"
  by (simp add: embedDocuments_def sanitize_text_def replace_callback_def is_ws_def
      estimateTokens_def MAX_TOKENS_PER_INPUT_def spec_sanitize_text_def trim_def Let_def js_def)

section \<open>Deletion by an empty filter\<close>

lemma ensureCollection_rows: "stored_rows (ensureCollection s) = stored_rows s"
  by (simp add: ensureCollection_def stored_rows_def split: option.splits)

lemma ensureCollection_deletes:
  "filter is_delete_call (vs_calls (ensureCollection s)) = filter is_delete_call (vs_calls s)"
  by (simp add: ensureCollection_def split: option.splits)

text \<open>
  C10: \<open>deleteByFilter\<close> with a filter without keys returns normally after obtaining the
  collection handle; the rows of the collection are the same and no delete call has been
  made to the index.
\<close>

theorem deleteByFilter_empty_filter:
  "deleteByFilter [] s = (Inr (), ensureCollection s)
   \<and> stored_rows (snd (deleteByFilter [] s)) = stored_rows s
   \<and> filter is_delete_call (vs_calls (snd (deleteByFilter [] s)))
       = filter is_delete_call (vs_calls s)"
  by (simp add: deleteByFilter_def object_keys_def ensureCollection_rows ensureCollection_deletes)

section \<open>Duplicate ids\<close>

lemma set_fold_set_add: "set (fold set_add xs acc) = set acc \<union> set xs"
  by (induction xs arbitrary: acc) (auto simp: set_add_def)

lemma distinct_fold_set_add: "distinct acc \<Longrightarrow> distinct (fold set_add xs acc)"
  by (induction xs arbitrary: acc) (auto simp: set_add_def)

lemma set_js_Set: "set (js_Set xs) = set xs"
  by (simp add: js_Set_def set_fold_set_add)

lemma distinct_js_Set: "distinct (js_Set xs)"
  by (simp add: js_Set_def distinct_fold_set_add)

lemma length_js_Set: "length (js_Set xs) = card (set xs)"
  using distinct_card[OF distinct_js_Set[of xs]] by (simp add: set_js_Set)

lemma length_js_Set_eq_iff: "length xs = length (js_Set xs) \<longleftrightarrow> distinct xs"
  by (metis card_distinct distinct_card length_js_Set)

lemma indexOf_notin: "x \<notin> set xs \<Longrightarrow> indexOf xs x = - 1"
  by (induction xs) auto

lemma indexOf_in:
  "x \<in> set xs \<Longrightarrow> \<exists>j. indexOf xs x = int j \<and> j < length xs \<and> xs ! j = x \<and> x \<notin> set (take j xs)"
proof (induction xs)
  case Nil then show ?case by simp
next
  case (Cons y ys)
  show ?case
  proof (cases "y = x")
    case True
    then show ?thesis by (intro exI[of _ 0]) simp
  next
    case False
    with Cons obtain j where j: "indexOf ys x = int j" "j < length ys" "ys ! j = x" "x \<notin> set (take j ys)"
      by auto
    with False show ?thesis by (intro exI[of _ "Suc j"]) (simp add: Let_def)
  qed
qed

lemma in_set_duplicates:
  "x \<in> set (duplicates xs) \<longleftrightarrow> (\<exists>i < length xs. xs ! i = x \<and> x \<in> set (take i xs))"
proof
  assume "x \<in> set (duplicates xs)"
  then obtain i where i: "i < length xs" "xs ! i = x" "indexOf xs x \<noteq> int i"
    by (auto simp: duplicates_def in_set_zip)
  then have "x \<in> set xs" by auto
  from indexOf_in[OF this] obtain j where j: "indexOf xs x = int j" "j < length xs" "xs ! j = x"
    "x \<notin> set (take j xs)" by blast
  have "\<not> i < j"
  proof
    assume "i < j"
    then have "xs ! i \<in> set (take j xs)"
      using j(2) by (metis in_set_conv_nth length_take min.absorb2 less_imp_le nth_take)
    with i j show False by simp
  qed
  with i j have "j < i" by (cases "i = j") auto
  then have "xs ! j \<in> set (take i xs)"
    using i(1) by (metis in_set_conv_nth length_take min.absorb2 less_imp_le nth_take)
  with i j show "\<exists>i < length xs. xs ! i = x \<and> x \<in> set (take i xs)" by auto
next
  assume "\<exists>i < length xs. xs ! i = x \<and> x \<in> set (take i xs)"
  then obtain i where i: "i < length xs" "xs ! i = x" "x \<in> set (take i xs)" by blast
  then have "x \<in> set xs" by auto
  from indexOf_in[OF this] obtain j where j: "indexOf xs x = int j" "x \<notin> set (take j xs)" by blast
  with i have "indexOf xs x \<noteq> int i" by auto
  with i show "x \<in> set (duplicates xs)"
    by (force simp: duplicates_def in_set_zip)
qed

lemma twice_iff_count:
  "(\<exists>i < length xs. xs ! i = x \<and> x \<in> set (take i xs)) \<longleftrightarrow> 1 < count_list xs x"
proof (induction xs rule: rev_induct)
  case Nil then show ?case by simp
next
  case (snoc y ys)
  have "(\<exists>i < length (ys @ [y]). (ys @ [y]) ! i = x \<and> x \<in> set (take i (ys @ [y])))
        \<longleftrightarrow> (\<exists>i < length ys. ys ! i = x \<and> x \<in> set (take i ys)) \<or> (y = x \<and> x \<in> set ys)"
  proof -
    have a: "\<And>i. i < length ys \<Longrightarrow> (ys @ [y]) ! i = ys ! i \<and> take i (ys @ [y]) = take i ys"
      by (simp add: nth_append)
    have b: "(ys @ [y]) ! length ys = y \<and> take (length ys) (ys @ [y]) = ys"
      by simp
    show ?thesis
    proof
      assume "\<exists>i < length (ys @ [y]). (ys @ [y]) ! i = x \<and> x \<in> set (take i (ys @ [y]))"
      then obtain i where i: "i < Suc (length ys)" "(ys @ [y]) ! i = x"
        "x \<in> set (take i (ys @ [y]))" by auto
      show "(\<exists>i < length ys. ys ! i = x \<and> x \<in> set (take i ys)) \<or> (y = x \<and> x \<in> set ys)"
      proof (cases "i < length ys")
        case True
        with a[OF True] i show ?thesis by auto
      next
        case False
        with i have "i = length ys" by simp
        with b i show ?thesis by simp
      qed
    next
      assume "(\<exists>i < length ys. ys ! i = x \<and> x \<in> set (take i ys)) \<or> (y = x \<and> x \<in> set ys)"
      then show "\<exists>i < length (ys @ [y]). (ys @ [y]) ! i = x \<and> x \<in> set (take i (ys @ [y]))"
      proof
        assume "\<exists>i < length ys. ys ! i = x \<and> x \<in> set (take i ys)"
        then obtain i where "i < length ys" "ys ! i = x" "x \<in> set (take i ys)" by blast
        with a[of i] show ?thesis by (intro exI[of _ i]) simp
      next
        assume "y = x \<and> x \<in> set ys"
        with b show ?thesis by (intro exI[of _ "length ys"]) simp
      qed
    qed
  qed
  moreover have "x \<in> set ys \<longleftrightarrow> 0 < count_list ys x"
    using count_list_0_iff[of ys x] by auto
  ultimately show ?case using snoc by auto
qed

lemma set_duplicates: "set (duplicates xs) = {x. 1 < count_list xs x}"
  by (auto simp: in_set_duplicates twice_iff_count)

lemma ensureCollection_upserts:
  "filter is_upsert_call (vs_calls (ensureCollection s)) = filter is_upsert_call (vs_calls s)"
  by (simp add: ensureCollection_def split: option.splits)

lemma validateUniqueIds_duplicates:
  assumes "\<not> distinct (map vr_id records)"
  shows "\<exists>n ds. validateUniqueIds records = Inl (DuplicateIds n (length records) ds)
           \<and> set ds = {i. 1 < count_list (map vr_id records) i}"
  using assms length_js_Set_eq_iff[of "map vr_id records"]
  by (simp add: validateUniqueIds_def Let_def set_js_Set set_duplicates)

lemma split_duplicates:
  assumes "split env fileName content = (chunks, warnings)"
    and "\<not> distinct (map chunk_id chunks)"
  shows "(\<exists>language captures. env_captures env language content = Some captures
            \<and> chunks = block_chunks fileName content captures)
         \<and> (\<exists>n ds. warnings = [DuplicateChunkIds n fileName ds]
               \<and> set ds = {i. 1 < count_list (map chunk_id chunks) i})"
  using assms length_js_Set_eq_iff[of "map chunk_id chunks"]
  by (auto simp: split_def Let_def set_js_Set set_duplicates split: if_splits option.splits)

text \<open>
  C8: when the chunks that \<open>split\<close> builds for a file have duplicate ids, \<open>split\<close> returns
  every chunk of the block captures together with one warning that lists the ids occurring
  more than once; and \<open>upsert\<close> on records with duplicate ids raises the error that lists
  the ids occurring more than once, leaves the rows of the collection as they were and
  makes no upsert call to the index.
\<close>

theorem duplicate_ids_warned_by_split_rejected_by_upsert:
  "(split env fileName content = (chunks, warnings) \<and> \<not> distinct (map chunk_id chunks) \<longrightarrow>
      (\<exists>language captures. env_captures env language content = Some captures
          \<and> chunks = block_chunks fileName content captures)
      \<and> (\<exists>n ds. warnings = [DuplicateChunkIds n fileName ds]
            \<and> set ds = {i. 1 < count_list (map chunk_id chunks) i}))
   \<and> (\<not> distinct (map vr_id records) \<longrightarrow>
      (\<exists>n ds. upsert records s = Some (Inl (DuplicateIds n (length records) ds), ensureCollection s)
            \<and> set ds = {i. 1 < count_list (map vr_id records) i})
      \<and> stored_rows (ensureCollection s) = stored_rows s
      \<and> filter is_upsert_call (vs_calls (ensureCollection s)) = filter is_upsert_call (vs_calls s))"
proof (intro conjI impI)
  assume a: "split env fileName content = (chunks, warnings) \<and> \<not> distinct (map chunk_id chunks)"
  from split_duplicates[of env fileName content chunks warnings] a
  show "\<exists>language captures. env_captures env language content = Some captures
          \<and> chunks = block_chunks fileName content captures"
    and "\<exists>n ds. warnings = [DuplicateChunkIds n fileName ds]
            \<and> set ds = {i. 1 < count_list (map chunk_id chunks) i}"
    by blast+
next
  assume "\<not> distinct (map vr_id records)"
  from validateUniqueIds_duplicates[OF this]
  show "\<exists>n ds. upsert records s = Some (Inl (DuplicateIds n (length records) ds), ensureCollection s)
            \<and> set ds = {i. 1 < count_list (map vr_id records) i}"
    by (auto simp: upsert_def Let_def)
next
  show "stored_rows (ensureCollection s) = stored_rows s" by (rule ensureCollection_rows)
next
  show "filter is_upsert_call (vs_calls (ensureCollection s)) = filter is_upsert_call (vs_calls s)"
    by (rule ensureCollection_upserts)
qed

text \<open>
  The statement of C8 at the sample: the two functions named \<open>f\<close> on one line give
  two chunks with one id.
\<close>

theorem duplicate_ids_witness:
  "\<not> distinct (map chunk_id (fst (split (sample_env no_changes) (js ''src/a.ts'') sample_source)))
   \<and> length (fst (split (sample_env no_changes) (js ''src/a.ts'') sample_source)) = 2
   \<and> (\<exists>n ds. snd (split (sample_env no_changes) (js ''src/a.ts'') sample_source)
                = [DuplicateChunkIds n (js ''src/a.ts'') ds]
            \<and> set ds = {i. 1 < count_list (map chunk_id
                 (fst (split (sample_env no_changes) (js ''src/a.ts'') sample_source))) i})
   \<and> \<not> distinct (map vr_id sample_records)
   \<and> (\<exists>n ds. upsert sample_records sample_store
                = Some (Inl (DuplicateIds n (length sample_records) ds),
                        ensureCollection sample_store)
            \<and> set ds = {i. 1 < count_list (map vr_id sample_records) i})
   \<and> stored_rows (ensureCollection sample_store) = stored_rows sample_store"
proof -
  let ?sp = "split (sample_env no_changes) (js ''src/a.ts'') sample_source"
  have a: "?sp = (fst ?sp, snd ?sp)" by simp
  have b: "\<not> distinct (map chunk_id (fst ?sp))" by code_simp
  have c: "length (fst ?sp) = 2" by code_simp
  have d: "\<not> distinct (map vr_id sample_records)" by code_simp
  from duplicate_ids_warned_by_split_rejected_by_upsert
         [of "sample_env no_changes" "js ''src/a.ts''" sample_source "fst ?sp" "snd ?sp"
             sample_records sample_store] a b c d
  show ?thesis by blast
qed

section \<open>Parent-child retrieval\<close>

lemma set_add_in: "x \<in> set acc \<Longrightarrow> set_add x acc = acc"
  and set_add_notin: "x \<notin> set acc \<Longrightarrow> set_add x acc = acc @ [x]"
  by (simp_all add: set_add_def)

lemma fold_set_add_prefix: "\<exists>zs. fold set_add xs acc = acc @ zs"
proof (induction xs arbitrary: acc)
  case Nil
  then show ?case by simp
next
  case (Cons x xs)
  obtain zs where zs: "fold set_add xs (set_add x acc) = set_add x acc @ zs"
    using Cons by blast
  show ?case
  proof (cases "x \<in> set acc")
    case True
    with zs show ?thesis by (simp add: set_add_in)
  next
    case False
    with zs have "fold set_add (x # xs) acc = acc @ (x # zs)" by (simp add: set_add_notin)
    then show ?thesis by blast
  qed
qed

lemma map_filter_Cons:
  "List.map_filter f (x # xs) = (case f x of None \<Rightarrow> List.map_filter f xs | Some y \<Rightarrow> y # List.map_filter f xs)"
  by (simp add: List.map_filter_def split: option.splits)

lemma collect_parents_fst:
  "int (length ps) < k \<Longrightarrow>
   fst (collect_parents ns k rs (ps, os))
     = take (nat k) (fold set_add (List.map_filter (parent_of ns) rs) ps)"
proof (induction rs arbitrary: ps os)
  case Nil
  then show ?case by simp
next
  case (Cons res rest)
  show ?case
  proof (cases "parent_of ns res")
    case None
    with Cons show ?thesis
      by (simp add: map_filter_Cons Let_def split: option.splits)
  next
    case (Some pid)
    let ?ps' = "set_add pid ps"
    show ?thesis
    proof (cases "k \<le> int (length ?ps')")
      case True
      have "length ?ps' \<le> Suc (length ps)" by (simp add: set_add_def)
      with True Cons.prems have len: "length ?ps' = nat k" by linarith
      obtain zs where "fold set_add (List.map_filter (parent_of ns) rest) ?ps' = ?ps' @ zs"
        using fold_set_add_prefix by blast
      with len True Some show ?thesis
        by (simp add: map_filter_Cons Let_def)
    next
      case False
      with Some Cons.IH[of ?ps' os] show ?thesis
        by (simp add: map_filter_Cons Let_def)
    qed
  qed
qed

lemma collect_parents_snd:
  "int (length ps) < k \<Longrightarrow> List.map_filter (parent_of ns) rs = [] \<Longrightarrow>
   snd (collect_parents ns k rs (ps, os)) = os @ orphan_hits ns rs"
proof (induction rs arbitrary: os)
  case Nil
  then show ?case by (simp add: orphan_hits_def List.map_filter_def)
next
  case (Cons res rest)
  from Cons.prems(2) have none: "parent_of ns res = None"
    and rest: "List.map_filter (parent_of ns) rest = []"
    by (auto simp: map_filter_Cons split: option.splits)
  have oh: "orphan_hits ns (res # rest) =
      (case vr_content res of None \<Rightarrow> orphan_hits ns rest
       | Some content \<Rightarrow> if truthy content then orphan_chunk res content # orphan_hits ns rest
                          else orphan_hits ns rest)"
    using none by (simp add: orphan_hits_def map_filter_Cons split: option.splits)
  show ?case
    using none Cons.IH[OF Cons.prems(1) rest] Cons.prems(1)
    by (simp add: oh Let_def split: option.splits)
qed

lemma js_Set_Nil_iff: "js_Set xs = [] \<longleftrightarrow> xs = []"
  using set_js_Set[of xs] by (metis set_empty)

lemma retrieve_closed_form:
  assumes "1 \<le> k"
    and "similaritySearch (env_query env) queryVector (k * 3) flt (vectorStore w)
           = (Inr childResults, vs)"
  shows "retrieve env queryVector k flt w =
           (Inr (let parentIds = collected_parent_ids (env_numberToString env) k childResults
                 in if parentIds \<noteq> []
                    then map parent_chunk
                           (getParents (env_findBy env) parentIds (contentStore w))
                    else orphan_hits (env_numberToString env) childResults),
            w\<lparr> vectorStore := vs \<rparr>)"
proof -
  let ?ns = "env_numberToString env"
  have k: "int (length ([]::jsstring list)) < k" using assms(1) by simp
  have f: "fst (collect_parents ?ns k childResults ([], [])) = collected_parent_ids ?ns k childResults"
    using collect_parents_fst[OF k] by (simp add: collected_parent_ids_def js_Set_def)
  show ?thesis
  proof (cases "collected_parent_ids ?ns k childResults = []")
    case True
    with assms(1) have "List.map_filter (parent_of ?ns) childResults = []"
      by (auto simp: collected_parent_ids_def js_Set_Nil_iff)
    from collect_parents_snd[OF k this]
    have "snd (collect_parents ?ns k childResults ([], [])) = orphan_hits ?ns childResults"
      by simp
    with True f assms(2) show ?thesis
      by (simp add: retrieve_def Let_def)
  next
    case False
    with f assms(2) show ?thesis
      by (simp add: retrieve_def Let_def)
  qed
qed

lemma table_order_contract: "select_contract table_order"
  by (simp add: select_contract_def table_order_def)

lemma count_list_filter:
  "count_list (filter P xs) b = (if P b then count_list xs b else 0)"
  by (induction xs) auto

lemma count_list_concat_filter:
  "distinct ks \<Longrightarrow>
   count_list (concat (map (\<lambda>i. filter (\<lambda>x. f x = i) xs) ks)) b
     = (if f b \<in> set ks then count_list xs b else 0)"
  by (induction ks) (auto simp: count_list_filter)

lemma id_list_order_contract: "select_contract id_list_order"
  by (simp add: select_contract_def id_list_order_def count_list_concat_filter count_list_filter)

text \<open>
  C3: the claim fails on the code when the database answers a selection in another order
  than that of the id list, which its contract allows. On the sample the children come
  with the parents \<open>src/b.ts\<close>, \<open>src/a.ts\<close> in this order, the database answers in the order
  of its table, and \<open>retrieve\<close> returns the blob of \<open>src/a.ts\<close> before the blob of
  \<open>src/b.ts\<close>: it maps over the answer as it comes and never orders it by the ids it
  collected, although the endpoint documents its result as sorted by relevance.
\<close>

theorem retrieve_ignores_order_of_parent_ids:
  "select_contract (env_findBy (sample_env no_changes))
   \<and> similaritySearch (env_query (sample_env no_changes)) [1] (2 * 3) None
        (vectorStore sample_world)
       = (Inr sample_children, sample_store\<lparr> vs_calls := [Query [1] 6 None] \<rparr>)
   \<and> collected_parent_ids (env_numberToString (sample_env no_changes)) 2 sample_children
       = [js ''src/b.ts'', js ''src/a.ts'']
   \<and> retrieve (sample_env no_changes) [1] 2 None sample_world
       = (Inr [parent_chunk blob_a, parent_chunk blob_b],
          sample_world\<lparr> vectorStore := sample_store\<lparr> vs_calls := [Query [1] 6 None] \<rparr> \<rparr>)
   \<and> spec_retrieve (sample_env no_changes) [1] 2 None sample_world
       = (Inr [parent_chunk blob_b, parent_chunk blob_a],
          sample_world\<lparr> vectorStore := sample_store\<lparr> vs_calls := [Query [1] 6 None] \<rparr> \<rparr>)
   \<and> map rc_id [parent_chunk blob_a, parent_chunk blob_b] = [js ''src/a.ts'', js ''src/b.ts'']"
proof (intro conjI)
  show "select_contract (env_findBy (sample_env no_changes))"
    by (simp add: sample_env_def table_order_contract)
qed code_simp+

text \<open>
  With the database that answers in the order of the id list, the same search returns
  the blobs in the insertion order of the parent ids.
\<close>

lemma retrieve_in_id_list_order:
  "retrieve ((sample_env no_changes)\<lparr> env_findBy := id_list_order \<rparr>) [1] 2 None sample_world
     = spec_retrieve ((sample_env no_changes)\<lparr> env_findBy := id_list_order \<rparr>) [1] 2 None
         sample_world
   \<and> map rc_id (results_of (retrieve ((sample_env no_changes)\<lparr> env_findBy := id_list_order \<rparr>)
                               [1] 2 None sample_world))
       = [js ''src/b.ts'', js ''src/a.ts'']"
  by code_simp

section \<open>The number of results\<close>

lemma similaritySearch_calls:
  "vs_calls (snd (similaritySearch q v n flt s))
     = vs_calls (ensureCollection s) @ [Query v n (build_where flt)]"
  by (simp add: similaritySearch_def Let_def split: sum.splits)

lemma retrieve_calls:
  "vs_calls (vectorStore (snd (retrieve env v k flt w)))
     = vs_calls (ensureCollection (vectorStore w)) @ [Query v (k * 3) (build_where flt)]"
proof -
  obtain r vs where r: "similaritySearch (env_query env) v (k * 3) flt (vectorStore w) = (r, vs)"
    by (cases "similaritySearch (env_query env) v (k * 3) flt (vectorStore w)")
  then have "vectorStore (snd (retrieve env v k flt w)) = vs"
    by (cases r) (simp_all add: retrieve_def Let_def)
  moreover from r have "vs = snd (similaritySearch (env_query env) v (k * 3) flt (vectorStore w))"
    by simp
  ultimately show ?thesis by (simp add: similaritySearch_calls)
qed

lemma retrieveChunks_calls:
  "vs_calls (vectorStore (snd (retrieveChunks env v k flt w)))
     = vs_calls (ensureCollection (vectorStore w)) @ [Query v k (build_where flt)]"
proof -
  obtain r vs where r: "similaritySearch (env_query env) v k flt (vectorStore w) = (r, vs)"
    by (cases "similaritySearch (env_query env) v k flt (vectorStore w)")
  then have "vectorStore (snd (retrieveChunks env v k flt w)) = vs"
    by (cases r) (simp_all add: retrieveChunks_def)
  moreover from r have "vs = snd (similaritySearch (env_query env) v k flt (vectorStore w))"
    by simp
  ultimately show ?thesis by (simp add: similaritySearch_calls)
qed

lemma map_hits_length: "map_hits i hits = Inr rs \<Longrightarrow> length rs = length hits"
  by (induction hits arbitrary: i rs) (auto split: option.splits sum.splits)

lemma similaritySearch_length:
  assumes "query_contract q" and "similaritySearch q v n flt s = (Inr rs, s')"
  shows "length rs \<le> nat n"
proof -
  from assms(2) obtain hits where h: "q (stored_rows (ensureCollection s)) v n (build_where flt) = Inr hits"
    and m: "map_hits 0 hits = Inr rs"
    by (auto simp: similaritySearch_def Let_def split: sum.splits)
  from assms(1) h have "length hits \<le> nat n" unfolding query_contract_def by blast
  with map_hits_length[OF m] show ?thesis by simp
qed

lemma length_eq_of_count_list:
  assumes "\<And>b. count_list xs b = count_list ys b"
  shows "length xs = length ys"
proof -
  have "\<And>b. b \<in> set xs \<longleftrightarrow> b \<in> set ys"
    using assms count_list_0_iff by metis
  then have s: "set xs = set ys" by blast
  have "length xs = sum (count_list xs) (set xs)" by (simp add: sum_count_set)
  also have "\<dots> = sum (count_list ys) (set ys)" using assms s by simp
  also have "\<dots> = length ys" by (simp add: sum_count_set)
  finally show ?thesis .
qed

lemma save_blob_keeps_key_unique:
  assumes "distinct (map blob_id table)"
  shows "distinct (map blob_id (save_blob b table))"
proof (cases "blob_id b \<in> set (map blob_id table)")
  case True
  have "map blob_id (map (\<lambda>x. if blob_id x = blob_id b then b else x) table)
          = map blob_id table"
    by (induction table) auto
  with True assms show ?thesis by (simp only: save_blob_def if_True)
next
  case False
  with assms show ?thesis by (simp add: save_blob_def)
qed

lemma saveParent_keeps_key_unique:
  "distinct (map blob_id table) \<Longrightarrow>
   distinct (map blob_id (saveParent ident content repoId metadata table))"
  by (simp add: saveParent_def Let_def save_blob_keeps_key_unique)

lemma getParents_length:
  assumes "select_contract findBy" and "distinct (map blob_id table)"
  shows "length (getParents findBy ids table) \<le> length ids"
proof -
  have "length (getParents findBy ids table)
          = length (filter (\<lambda>x. blob_id x \<in> set ids) table)"
    unfolding getParents_def
    using assms(1) by (intro length_eq_of_count_list) (simp add: select_contract_def)
  also have "\<dots> = length (filter (\<lambda>i. i \<in> set ids) (map blob_id table))"
    by (simp add: filter_map comp_def)
  also have "\<dots> = card ({i. i \<in> set ids} \<inter> set (map blob_id table))"
    using assms(2) by (rule distinct_length_filter)
  also have "\<dots> \<le> card (set ids)"
    by (intro card_mono) auto
  also have "\<dots> \<le> length ids" by (rule card_length)
  finally show ?thesis .
qed

lemma orphan_hits_length: "length (orphan_hits ns childResults) \<le> length childResults"
  by (simp add: orphan_hits_def List.map_filter_def)

lemma retrieve_one:
  assumes s: "similaritySearch (env_query env) v 3 flt (vectorStore w) = (Inr childResults, vs)"
    and qc: "query_contract (env_query env)"
    and sc: "select_contract (env_findBy env)"
    and d: "distinct (map blob_id (contentStore w))"
  shows "(let parentIds = collected_parent_ids (env_numberToString env) 1 childResults
          in length childResults \<le> 3 \<and> length parentIds \<le> 1
             \<and> (if parentIds \<noteq> []
                 then fst (retrieve env v 1 flt w)
                        = Inr (map parent_chunk
                                 (getParents (env_findBy env) parentIds (contentStore w)))
                      \<and> length (getParents (env_findBy env) parentIds (contentStore w)) \<le> 1
                 else fst (retrieve env v 1 flt w)
                        = Inr (orphan_hits (env_numberToString env) childResults)
                      \<and> length (orphan_hits (env_numberToString env) childResults) \<le> 3))"
proof -
  let ?ns = "env_numberToString env"
  let ?ids = "collected_parent_ids ?ns 1 childResults"
  have one: "(1::int) \<le> 1" by simp
  from s have s': "similaritySearch (env_query env) v (1 * 3) flt (vectorStore w)
                     = (Inr childResults, vs)" by simp
  note cf = retrieve_closed_form[OF one s']
  have three: "length childResults \<le> 3"
    using similaritySearch_length[OF qc s] by simp
  have ids: "length ?ids \<le> 1"
    by (simp add: collected_parent_ids_def)
  have parents: "length (getParents (env_findBy env) ?ids (contentStore w)) \<le> 1"
    using getParents_length[OF sc d, of ?ids] ids by linarith
  have orphans: "length (orphan_hits ?ns childResults) \<le> 3"
    using orphan_hits_length[of ?ns childResults] three by linarith
  show ?thesis
  proof (cases "?ids = []")
    case True
    with cf have "fst (retrieve env v 1 flt w) = Inr (orphan_hits ?ns childResults)"
      by (simp add: Let_def)
    with True three orphans show ?thesis by (simp add: Let_def)
  next
    case False
    with cf have "fst (retrieve env v 1 flt w)
                    = Inr (map parent_chunk (getParents (env_findBy env) ?ids (contentStore w)))"
      by (simp add: Let_def)
    with False three ids parents show ?thesis by (simp add: Let_def)
  qed
qed

lemma retrieveChunks_one:
  assumes "query_contract (env_query env)"
    and "retrieveChunks env v 1 flt w = (Inr rs, w')"
  shows "length rs \<le> 1"
proof -
  obtain r vs where r: "similaritySearch (env_query env) v 1 flt (vectorStore w) = (r, vs)"
    by (cases "similaritySearch (env_query env) v 1 flt (vectorStore w)")
  show ?thesis
  proof (cases r)
    case (Inl e)
    with r assms(2) show ?thesis by (simp add: retrieveChunks_def)
  next
    case (Inr chunkResults)
    with r assms(2)
    have "rs = map result_chunk (filter (\<lambda>chunk. truthy_opt (vr_content chunk)) chunkResults)"
      by (simp add: retrieveChunks_def)
    moreover from similaritySearch_length[OF assms(1)] r Inr have "length chunkResults \<le> 1"
      by fastforce
    moreover have "length (filter (\<lambda>chunk. truthy_opt (vr_content chunk)) chunkResults) \<le> length chunkResults"
      by (rule length_filter_le)
    ultimately show ?thesis by (simp only: length_map)
  qed
qed

lemma search_cases:
  "search env repoId params w =
     (case fst (embedDocuments (env_create env) (Some [Some (req_prompt params)])) of
        Inl e \<Rightarrow> (Inl e, w)
      | Inr [] \<Rightarrow> (Inl BadRequest, w)
      | Inr (queryVector # others) \<Rightarrow>
          retrieve env queryVector (normalizeK (req_k params))
            (Some (spread [(js ''repoId'', PStr repoId)]
                     (case req_meta params of None \<Rightarrow> [] | Some m \<Rightarrow> m))) w)"
  by (simp add: search_def Let_def)

lemma searchChunks_cases:
  "searchChunks env repoId params w =
     (case fst (embedDocuments (env_create env) (Some [Some (req_prompt params)])) of
        Inl e \<Rightarrow> (Inl e, w)
      | Inr [] \<Rightarrow> (Inl BadRequest, w)
      | Inr (queryVector # others) \<Rightarrow>
          retrieveChunks env queryVector (normalizeK (req_k params))
            (Some (spread [(js ''repoId'', PStr repoId)]
                     (case req_meta params of None \<Rightarrow> [] | Some m \<Rightarrow> m))) w)"
  by (simp add: searchChunks_def Let_def)

text \<open>
  C7: \<open>k = 1\<close> and \<open>k = 100\<close> are kept; a \<open>k\<close> that is undefined, not an integer or below
  one becomes 5; an integer above 100 becomes 100. The searches hand the normalized value
  to the retriever: the query of the index asks for three times that many children in
  parent mode and for that many chunks in chunk mode. With \<open>k = 1\<close>, when the index
  answers the parent-mode search with the children \<open>childResults\<close>, there are at most
  three of them and at most one parent id is collected from them. If one is collected,
  the result of the search is the answer of the database for this one id, which is at
  most one parent, the primary key of the content store being unique; if none is, no
  parent is returned and the result is the orphans among these children. With \<open>k = 1\<close>
  chunk mode returns at most one chunk. The bounds rely on the contracts of the index
  (at most \<open>nResults\<close> hits) and of the database.
\<close>

theorem k_is_normalized_before_retrieval:
  "normalizeK (Some (Finite 1)) = 1
   \<and> normalizeK (Some (Finite 100)) = 100
   \<and> normalizeK None = 5
   \<and> (as_integer n1 = None \<longrightarrow> normalizeK (Some n1) = 5)
   \<and> (as_integer n2 = Some i2 \<and> i2 < 1 \<longrightarrow> normalizeK (Some n2) = 5)
   \<and> (as_integer n3 = Some i3 \<and> 100 < i3 \<longrightarrow> normalizeK (Some n3) = 100)
   \<and> (fst (embedDocuments (env_create env) (Some [Some (req_prompt params)]))
         = Inr (queryVector # others) \<longrightarrow>
       (\<exists>wh. vs_calls (vectorStore (snd (search env repoId params w)))
               = vs_calls (ensureCollection (vectorStore w))
                 @ [Query queryVector (normalizeK (req_k params) * 3) wh])
       \<and> (\<exists>wh. vs_calls (vectorStore (snd (searchChunks env repoId params w)))
               = vs_calls (ensureCollection (vectorStore w))
                 @ [Query queryVector (normalizeK (req_k params)) wh]))
   \<and> (normalizeK (req_k params1) = 1
        \<and> fst (embedDocuments (env_create env1) (Some [Some (req_prompt params1)]))
            = Inr (queryVector1 # others1)
        \<and> similaritySearch (env_query env1) queryVector1 3
             (Some (spread [(js ''repoId'', PStr repoId1)]
                      (case req_meta params1 of None \<Rightarrow> [] | Some m \<Rightarrow> m)))
             (vectorStore w1)
            = (Inr childResults1, vs1)
        \<and> query_contract (env_query env1) \<and> select_contract (env_findBy env1)
        \<and> distinct (map blob_id (contentStore w1)) \<longrightarrow>
       (let parentIds = collected_parent_ids (env_numberToString env1) 1 childResults1
        in length childResults1 \<le> 3 \<and> length parentIds \<le> 1
           \<and> (if parentIds \<noteq> []
               then fst (search env1 repoId1 params1 w1)
                      = Inr (map parent_chunk
                               (getParents (env_findBy env1) parentIds (contentStore w1)))
                    \<and> length (getParents (env_findBy env1) parentIds (contentStore w1)) \<le> 1
               else fst (search env1 repoId1 params1 w1)
                      = Inr (orphan_hits (env_numberToString env1) childResults1)
                    \<and> length (orphan_hits (env_numberToString env1) childResults1) \<le> 3)))
   \<and> (normalizeK (req_k params2) = 1 \<and> query_contract (env_query env2)
        \<and> searchChunks env2 repoId2 params2 w2 = (Inr rs2, w2') \<longrightarrow>
       length rs2 \<le> 1)"
proof (intro conjI impI)
  show "normalizeK (Some (Finite 1)) = 1" "normalizeK (Some (Finite 100)) = 100"
    "normalizeK None = 5"
    by (simp_all add: normalizeK_def DEFAULT_K_def MAX_K_def)
next
  assume "as_integer n1 = None"
  then show "normalizeK (Some n1) = 5" by (simp add: normalizeK_def DEFAULT_K_def)
next
  assume "as_integer n2 = Some i2 \<and> i2 < 1"
  then show "normalizeK (Some n2) = 5" by (simp add: normalizeK_def DEFAULT_K_def)
next
  assume "as_integer n3 = Some i3 \<and> 100 < i3"
  then show "normalizeK (Some n3) = 100" by (simp add: normalizeK_def MAX_K_def)
next
  assume e: "fst (embedDocuments (env_create env) (Some [Some (req_prompt params)]))
         = Inr (queryVector # others)"
  show "\<exists>wh. vs_calls (vectorStore (snd (search env repoId params w)))
               = vs_calls (ensureCollection (vectorStore w))
                 @ [Query queryVector (normalizeK (req_k params) * 3) wh]"
    by (simp add: search_cases e retrieve_calls)
  show "\<exists>wh. vs_calls (vectorStore (snd (searchChunks env repoId params w)))
               = vs_calls (ensureCollection (vectorStore w))
                 @ [Query queryVector (normalizeK (req_k params)) wh]"
    by (simp add: searchChunks_cases e retrieveChunks_calls)
next
  let ?flt = "Some (spread [(js ''repoId'', PStr repoId1)]
                      (case req_meta params1 of None \<Rightarrow> [] | Some m \<Rightarrow> m))"
  assume a: "normalizeK (req_k params1) = 1
        \<and> fst (embedDocuments (env_create env1) (Some [Some (req_prompt params1)]))
            = Inr (queryVector1 # others1)
        \<and> similaritySearch (env_query env1) queryVector1 3 ?flt (vectorStore w1)
            = (Inr childResults1, vs1)
        \<and> query_contract (env_query env1) \<and> select_contract (env_findBy env1)
        \<and> distinct (map blob_id (contentStore w1))"
  then have r: "search env1 repoId1 params1 w1 = retrieve env1 queryVector1 1 ?flt w1"
    by (simp add: search_cases)
  from a have s: "similaritySearch (env_query env1) queryVector1 3 ?flt (vectorStore w1)
            = (Inr childResults1, vs1)"
    and qc: "query_contract (env_query env1)" and sc: "select_contract (env_findBy env1)"
    and d: "distinct (map blob_id (contentStore w1))"
    by simp_all
  show "let parentIds = collected_parent_ids (env_numberToString env1) 1 childResults1
        in length childResults1 \<le> 3 \<and> length parentIds \<le> 1
           \<and> (if parentIds \<noteq> []
               then fst (search env1 repoId1 params1 w1)
                      = Inr (map parent_chunk
                               (getParents (env_findBy env1) parentIds (contentStore w1)))
                    \<and> length (getParents (env_findBy env1) parentIds (contentStore w1)) \<le> 1
               else fst (search env1 repoId1 params1 w1)
                      = Inr (orphan_hits (env_numberToString env1) childResults1)
                    \<and> length (orphan_hits (env_numberToString env1) childResults1) \<le> 3)"
    unfolding r by (rule retrieve_one[OF s qc sc d])
next
  assume a: "normalizeK (req_k params2) = 1 \<and> query_contract (env_query env2)
        \<and> searchChunks env2 repoId2 params2 w2 = (Inr rs2, w2')"
  then obtain v flt where "retrieveChunks env2 v 1 flt w2 = (Inr rs2, w2')"
    by (auto simp: searchChunks_cases split: sum.splits list.splits)
  with a retrieveChunks_one show "length rs2 \<le> 1"
    by blast
qed

lemma sample_embedding:
  "fst (embedDocuments (env_create (sample_env ch)) (Some [Some (req_prompt (sample_request k))]))
     = Inr [[1]]"
  by (simp add: embedDocuments_def sample_env_def sample_request_def js_def sanitize_text_def
      is_ws_def replace_callback_def estimateTokens_def MAX_TOKENS_PER_INPUT_def Let_def)

lemma sample_search:
  "search (sample_env ch) (js ''demo'') (sample_request k) sample_world
     = retrieve (sample_env ch) [1] (normalizeK k) (Some [(js ''repoId'', PStr (js ''demo''))])
         sample_world"
  "searchChunks (sample_env ch) (js ''demo'') (sample_request k) sample_world
     = retrieveChunks (sample_env ch) [1] (normalizeK k)
         (Some [(js ''repoId'', PStr (js ''demo''))]) sample_world"
  by (simp_all add: search_cases searchChunks_cases sample_embedding)
     (simp_all add: sample_request_def spread_def)

text \<open>
  The statement of C7 at the sample: \<open>NaN\<close>, 3/2 and 0 give 5, 250 gives 100 and the
  index is asked for 300 children or 100 chunks; with \<open>k = 1\<close> the index answers with two
  children, the one parent id \<open>src/b.ts\<close> is collected and the search returns the one
  parent \<open>src/b.ts\<close>; chunk mode returns at most one chunk.
\<close>

theorem k_is_normalized_witness:
  "as_integer NaN = None \<and> normalizeK (Some NaN) = 5
   \<and> as_integer (Finite (3 / 2)) = None \<and> normalizeK (Some (Finite (3 / 2))) = 5
   \<and> as_integer (Finite 0) = Some 0 \<and> normalizeK (Some (Finite 0)) = 5
   \<and> as_integer (Finite 250) = Some 250 \<and> normalizeK (Some (Finite 250)) = 100
   \<and> fst (embedDocuments (env_create (sample_env no_changes))
             (Some [Some (req_prompt (sample_request (Some (Finite 250))))])) = Inr [[1]]
   \<and> (\<exists>wh. vs_calls (vectorStore (snd (search (sample_env no_changes) (js ''demo'')
                                            (sample_request (Some (Finite 250))) sample_world)))
              = vs_calls (ensureCollection (vectorStore sample_world))
                @ [Query [1] (normalizeK (req_k (sample_request (Some (Finite 250)))) * 3) wh])
   \<and> vs_calls (vectorStore (snd (search (sample_env no_changes) (js ''demo'')
                                    (sample_request (Some (Finite 250))) sample_world)))
       = [Query [1] 300 (Some (WhereObj [(js ''repoId'', PStr (js ''demo''))]))]
   \<and> vs_calls (vectorStore (snd (searchChunks (sample_env no_changes) (js ''demo'')
                                    (sample_request (Some (Finite 250))) sample_world)))
       = [Query [1] 100 (Some (WhereObj [(js ''repoId'', PStr (js ''demo''))]))]
   \<and> normalizeK (req_k (sample_request (Some (Finite 1)))) = 1
   \<and> fst (embedDocuments (env_create (sample_env no_changes))
             (Some [Some (req_prompt (sample_request (Some (Finite 1))))])) = Inr [[1]]
   \<and> similaritySearch (env_query (sample_env no_changes)) [1] 3
        (Some (spread [(js ''repoId'', PStr (js ''demo''))]
                 (case req_meta (sample_request (Some (Finite 1))) of
                    None \<Rightarrow> [] | Some m \<Rightarrow> m)))
        (vectorStore sample_world)
       = (Inr sample_children,
          sample_store\<lparr> vs_calls :=
            [Query [1] 3 (Some (WhereObj [(js ''repoId'', PStr (js ''demo''))]))] \<rparr>)
   \<and> query_contract (env_query (sample_env no_changes))
   \<and> select_contract (env_findBy (sample_env no_changes))
   \<and> distinct (map blob_id (contentStore sample_world))
   \<and> length sample_children \<le> 3
   \<and> collected_parent_ids (env_numberToString (sample_env no_changes)) 1 sample_children
       = [js ''src/b.ts'']
   \<and> fst (search (sample_env no_changes) (js ''demo'') (sample_request (Some (Finite 1)))
            sample_world)
       = Inr [parent_chunk blob_b]
   \<and> length (getParents (env_findBy (sample_env no_changes)) [js ''src/b.ts'']
                (contentStore sample_world)) \<le> 1
   \<and> searchChunks (sample_env no_changes) (js ''demo'') (sample_request (Some (Finite 1)))
         sample_world
       = (Inr (results_of (searchChunks (sample_env no_changes) (js ''demo'')
                             (sample_request (Some (Finite 1))) sample_world)),
          snd (searchChunks (sample_env no_changes) (js ''demo'')
                 (sample_request (Some (Finite 1))) sample_world))
   \<and> length (results_of (searchChunks (sample_env no_changes) (js ''demo'')
                            (sample_request (Some (Finite 1))) sample_world)) \<le> 1"
proof -
  let ?E = "sample_env no_changes"
  let ?f = "Some [(js ''repoId'', PStr (js ''demo''))]"
  let ?p = "sample_request (Some (Finite 250))"
  let ?q = "sample_request (Some (Finite 1))"
  let ?flt = "Some (spread [(js ''repoId'', PStr (js ''demo''))]
                      (case req_meta ?q of None \<Rightarrow> [] | Some m \<Rightarrow> m))"
  let ?vs = "sample_store\<lparr> vs_calls :=
               [Query [1] 3 (Some (WhereObj [(js ''repoId'', PStr (js ''demo''))]))] \<rparr>"
  let ?s = "search ?E (js ''demo'') ?q sample_world"
  let ?c = "searchChunks ?E (js ''demo'') ?q sample_world"
  have n: "as_integer NaN = None" "as_integer (Finite (3 / 2)) = None"
    "as_integer (Finite 0) = Some 0 \<and> (0::int) < 1"
    "as_integer (Finite 250) = Some 250 \<and> (100::int) < 250"
    by code_simp+
  have n': "as_integer (Finite 0) = Some 0" "as_integer (Finite 250) = Some 250"
    using n by simp_all
  have k: "normalizeK (Some (Finite 1)) = 1" "normalizeK (Some (Finite 250)) = 100"
    by code_simp+
  have kq: "normalizeK (req_k ?q) = 1" by (simp add: sample_request_def k)
  have e: "fst (embedDocuments (env_create ?E) (Some [Some (req_prompt ?p)])) = Inr ([1] # [])"
    by (rule sample_embedding)
  have eq: "fst (embedDocuments (env_create ?E) (Some [Some (req_prompt ?q)])) = Inr ([1] # [])"
    by (rule sample_embedding)
  have ss: "similaritySearch (env_query ?E) [1] 3 ?flt (vectorStore sample_world)
              = (Inr sample_children, ?vs)"
    by code_simp
  have d: "distinct (map blob_id (contentStore sample_world))" by code_simp
  have qc: "query_contract (env_query ?E)"
    by (simp add: query_contract_def sample_env_def sample_query_def)
  have sc: "select_contract (env_findBy ?E)"
    by (simp add: sample_env_def table_order_contract)
  have ids: "collected_parent_ids (env_numberToString ?E) 1 sample_children = [js ''src/b.ts'']"
    by code_simp
  have gp: "getParents (env_findBy ?E) [js ''src/b.ts''] (contentStore sample_world) = [blob_b]"
    by code_simp
  have "retrieveChunks ?E [1] 1 ?f sample_world
          = (Inr (results_of (retrieveChunks ?E [1] 1 ?f sample_world)),
             snd (retrieveChunks ?E [1] 1 ?f sample_world))"
    by code_simp
  then have c: "?c = (Inr (results_of ?c), snd ?c)"
    by (simp only: sample_search k)
  have "vs_calls (vectorStore (snd (retrieve ?E [1] 100 ?f sample_world)))
          = [Query [1] 300 (Some (WhereObj [(js ''repoId'', PStr (js ''demo''))]))]"
    "vs_calls (vectorStore (snd (retrieveChunks ?E [1] 100 ?f sample_world)))
          = [Query [1] 100 (Some (WhereObj [(js ''repoId'', PStr (js ''demo''))]))]"
    by code_simp+
  then have calls: "vs_calls (vectorStore (snd (search ?E (js ''demo'') ?p sample_world)))
       = [Query [1] 300 (Some (WhereObj [(js ''repoId'', PStr (js ''demo''))]))]"
    "vs_calls (vectorStore (snd (searchChunks ?E (js ''demo'') ?p sample_world)))
       = [Query [1] 100 (Some (WhereObj [(js ''repoId'', PStr (js ''demo''))]))]"
    by (simp_all only: sample_search k)
  note t = k_is_normalized_before_retrieval
             [of NaN "Finite 0" 0 "Finite 250" 250 ?E ?p "[1]" "[]" "js ''demo''" sample_world
                 ?q ?E "[1]" "[]" "js ''demo''" sample_world sample_children ?vs
                 ?q ?E "js ''demo''" sample_world "results_of ?c" "snd ?c"]
  note t4 = t[THEN conjunct2, THEN conjunct2, THEN conjunct2]
  have r1: "normalizeK (Some NaN) = 5"
    using t4[THEN conjunct1] n(1) by (rule mp)
  have r2: "normalizeK (Some (Finite 0)) = 5"
    using t4[THEN conjunct2, THEN conjunct1] n(3) by (rule mp)
  have r3: "normalizeK (Some (Finite 250)) = 100"
    using t4[THEN conjunct2, THEN conjunct2, THEN conjunct1] n(4) by (rule mp)
  note t7 = t4[THEN conjunct2, THEN conjunct2, THEN conjunct2]
  have r7: "\<exists>wh. vs_calls (vectorStore (snd (search ?E (js ''demo'') ?p sample_world)))
              = vs_calls (ensureCollection (vectorStore sample_world))
                @ [Query [1] (normalizeK (req_k ?p) * 3) wh]"
    using t7[THEN conjunct1, THEN mp, OF e] by (rule conjunct1)
  note t8 = t7[THEN conjunct2]
  have h8: "normalizeK (req_k ?q) = 1
        \<and> fst (embedDocuments (env_create ?E) (Some [Some (req_prompt ?q)])) = Inr ([1] # [])
        \<and> similaritySearch (env_query ?E) [1] 3 ?flt (vectorStore sample_world)
            = (Inr sample_children, ?vs)
        \<and> query_contract (env_query ?E) \<and> select_contract (env_findBy ?E)
        \<and> distinct (map blob_id (contentStore sample_world))"
    using kq eq ss qc sc d by (intro conjI)
  have r8: "let parentIds = collected_parent_ids (env_numberToString ?E) 1 sample_children
        in length sample_children \<le> 3 \<and> length parentIds \<le> 1
           \<and> (if parentIds \<noteq> []
               then fst ?s = Inr (map parent_chunk
                                    (getParents (env_findBy ?E) parentIds
                                       (contentStore sample_world)))
                    \<and> length (getParents (env_findBy ?E) parentIds
                                 (contentStore sample_world)) \<le> 1
               else fst ?s = Inr (orphan_hits (env_numberToString ?E) sample_children)
                    \<and> length (orphan_hits (env_numberToString ?E) sample_children) \<le> 3)"
    using t8[THEN conjunct1] h8 by (rule mp)
  have r8': "length sample_children \<le> 3
        \<and> fst ?s = Inr (map parent_chunk
                            (getParents (env_findBy ?E) [js ''src/b.ts'']
                               (contentStore sample_world)))
        \<and> length (getParents (env_findBy ?E) [js ''src/b.ts'']
                     (contentStore sample_world)) \<le> 1"
    using r8 unfolding Let_def ids by simp
  have r8a: "length sample_children \<le> 3" using r8' by (rule conjunct1)
  have r8b: "fst ?s = Inr [parent_chunk blob_b]"
    using r8'[THEN conjunct2, THEN conjunct1] unfolding gp by simp
  have r8c: "length (getParents (env_findBy ?E) [js ''src/b.ts'']
                       (contentStore sample_world)) \<le> 1"
    using r8' by (rule conjunct2[THEN conjunct2])
  have h9: "normalizeK (req_k ?q) = 1 \<and> query_contract (env_query ?E)
        \<and> ?c = (Inr (results_of ?c), snd ?c)"
    using kq qc c by (intro conjI)
  have r9: "length (results_of ?c) \<le> 1"
    using t8[THEN conjunct2] h9 by (rule mp)
  have r1': "normalizeK (Some (Finite (3 / 2))) = 5"
    using k_is_normalized_before_retrieval
             [of "Finite (3 / 2)", THEN conjunct2, THEN conjunct2, THEN conjunct2, THEN conjunct1]
          n(2) by (rule mp)
  have e': "fst (embedDocuments (env_create ?E) (Some [Some (req_prompt ?p)])) = Inr [[1]]"
    "fst (embedDocuments (env_create ?E) (Some [Some (req_prompt ?q)])) = Inr [[1]]"
    using e eq by simp_all
  show ?thesis
    using n(1,2) n' r1 r1' r2 r3 e' r7 calls kq ss qc sc d r8a ids r8b r8c c r9
    by (intro conjI) (simp_all only:)
qed

text \<open>
  With \<open>k = 1\<close> and an index whose children name no parent, no parent id is collected and
  the search returns the three orphans.
\<close>

lemma search_one_returns_orphans:
  "map rc_id (results_of (search (sample_env no_changes) (js ''demo'')
                            (sample_request (Some (Finite 1))) orphan_world))
     = [js ''o1'', js ''o2'', js ''o3'']
   \<and> collected_parent_ids (env_numberToString (sample_env no_changes)) 1
        (map (\<lambda>r. hit_record (hit_of_row r) 0) (stored_rows (vectorStore orphan_world)))
       = []"
  by code_simp

section \<open>A diff without added or modified files\<close>

lemma getRepoState_stores:
  assumes "getRepoState env repoUrl w = (Inr st, w1)"
  shows "vectorStore w1 = vectorStore w \<and> contentStore w1 = contentStore w
         \<and> (w1 = w \<or> (lastProcessedCommit st = None
                         \<and> repoStates w1 = save_state st (repoStates w)))"
  using assms
  by (auto simp: getRepoState_def Let_def split: option.splits)

text \<open>
  C2, as stated, fails: on the sample, a diff that only deletes \<open>src/b.ts\<close> makes the
  job return "No changes detected" with the stores as they were. No delete call was made,
  the chunk of \<open>src/b.ts\<close> is still in the index, and the last processed commit is still
  \<open>c0\<close> although the repository is at \<open>c1\<close>.
\<close>

theorem process_deletion_only_counterexample:
  "process (sample_env deletion_only) sample_job sample_world
     = Some (Inr (Some (js ''No changes detected'')), sample_world)
   \<and> ch_deleted deletion_only = [js ''src/b.ts'']
   \<and> env_getCurrentCommit (sample_env deletion_only) (state_localPath sample_state)
       = Inr (js ''c1'')
   \<and> map lastProcessedCommit (repoStates sample_world) = [Some (js ''c0'')]
   \<and> filter (\<lambda>r. map_of (row_metadata r) (js ''parentId'') = Some (PStr (js ''src/b.ts'')))
        (stored_rows (vectorStore sample_world)) = [row_b]
   \<and> vs_calls (vectorStore sample_world) = []"
  by code_simp

text \<open>
  C2, amended: when the diff has no added and no modified file, \<open>process\<close> returns
  "No changes detected" right after the diff. The vector store and the content store are
  as before the job, and the table of repository states is unchanged (or, for a
  repository seen for the first time, has gained its new state without a commit).
\<close>

theorem process_returns_early_without_added_or_modified:
  assumes "getRepoState env (job_repoUrl job) w = (Inr st, w1)"
    and "env_getCurrentCommit env (state_localPath st) = Inr currentCommit"
    and "env_getChangedFiles env (state_localPath st) (or_undefined (lastProcessedCommit st))
           = Inr changes"
    and "ch_added changes = []" and "ch_modified changes = []"
  shows "process env job w = Some (Inr (Some (js ''No changes detected'')), w1)
         \<and> vectorStore w1 = vectorStore w \<and> contentStore w1 = contentStore w
         \<and> (w1 = w \<or> (lastProcessedCommit st = None
                         \<and> repoStates w1 = save_state st (repoStates w)))"
  using assms getRepoState_stores[OF assms(1)]
  by (simp add: process_def Let_def)

text \<open>
  The amended statement at the sample.
\<close>

theorem process_returns_early_witness:
  "getRepoState (sample_env deletion_only) (job_repoUrl sample_job) sample_world
     = (Inr sample_state, sample_world)
   \<and> env_getCurrentCommit (sample_env deletion_only) (state_localPath sample_state)
       = Inr (js ''c1'')
   \<and> env_getChangedFiles (sample_env deletion_only) (state_localPath sample_state)
        (or_undefined (lastProcessedCommit sample_state)) = Inr deletion_only
   \<and> ch_added deletion_only = [] \<and> ch_modified deletion_only = []
   \<and> process (sample_env deletion_only) sample_job sample_world
       = Some (Inr (Some (js ''No changes detected'')), sample_world)"
proof -
  have a: "getRepoState (sample_env deletion_only) (job_repoUrl sample_job) sample_world
     = (Inr sample_state, sample_world)" by code_simp
  have b: "env_getCurrentCommit (sample_env deletion_only) (state_localPath sample_state)
       = Inr (js ''c1'')" by (simp add: sample_env_def)
  have c: "env_getChangedFiles (sample_env deletion_only) (state_localPath sample_state)
        (or_undefined (lastProcessedCommit sample_state)) = Inr deletion_only"
    by (simp add: sample_env_def)
  have d: "ch_added deletion_only = []" "ch_modified deletion_only = []"
    by (simp_all add: deletion_only_def)
  from process_returns_early_without_added_or_modified[OF a b c d] a b c d
  show ?thesis by simp
qed

section \<open>Deleted files\<close>

text \<open>
  C1: the claim fails on the code. On the sample, a diff that adds \<open>logo.png\<close> and
  deletes \<open>src/b.ts\<close> makes the job call \<open>delete({ ids: ["src/b.ts"] })\<close>; the ids of the
  index are chunk ids, none is the path, and after the job (which records commit \<open>c1\<close>)
  the chunk of \<open>src/b.ts\<close>, with \<open>parentId = "src/b.ts"\<close> and the \<open>repoId\<close> of the job,
  is still in the index.
\<close>

theorem process_keeps_vectors_of_deleted_file:
  "map_option (\<lambda>(r, w'). (r, stored_rows (vectorStore w'), vs_calls (vectorStore w'),
                          map lastProcessedCommit (repoStates w')))
     (process (sample_env deletion_and_image) sample_job sample_world)
   = Some (Inr None, [row_b, row_a], [DeleteIds [js ''src/b.ts'']], [Some (js ''c1'')])
   \<and> map_of (row_metadata row_b) (js ''parentId'') = Some (PStr (js ''src/b.ts''))
   \<and> map_of (row_metadata row_b) (js ''repoId'') = Some (PStr (job_repoId sample_job))"
  by code_simp

section \<open>Reserved metadata of the stored records\<close>

lemma js_inject [simp]: "js a = js b \<longleftrightarrow> a = b"
  by (simp add: js_def inj_map_eq_map inj_def)

lemma map_of_spread_other:
  "k \<notin> fst ` set b \<Longrightarrow> map_of (spread a b) k = map_of a k"
  unfolding spread_def
  by (induction b arbitrary: a) (auto simp: update_conv')

lemma sanitize_entries_keys:
  "fst ` set (sanitize_entries m acc) \<subseteq> fst ` set acc \<union> (fst ` set m - set reservedFields)"
proof (induction m acc rule: sanitize_entries.induct)
  case (1 sanitized)
  then show ?case by simp
next
  case (2 key v entries sanitized)
  then show ?case
  proof (cases "key \<in> set reservedFields")
    case True
    with 2 show ?thesis by auto
  next
    case False
    show ?thesis
    proof (cases v)
      case (VPrim p)
      with False 2(2)[OF False VPrim]
      have "fst ` set (sanitize_entries ((key, v) # entries) sanitized)
              \<subseteq> insert key (fst ` set sanitized) \<union> (fst ` set entries - set reservedFields)"
        by (simp add: dom_update)
      with False show ?thesis by auto
    qed (use False 2 in auto)
  qed
qed

lemma reserved_not_in_sanitizeMeta:
  "key \<in> set reservedFields \<Longrightarrow> key \<notin> fst ` set (sanitizeMeta meta)"
  using sanitize_entries_keys[of _ "[]"]
  by (auto simp: sanitizeMeta_def split: option.splits)

lemma chunk_record_reserved:
  "(let md = map_of (vr_metadata
                (chunk_record env job st (sanitizeMeta jobMeta) path vectors idx chunk))
    in md (js ''id'') = Some (PStr (chunk_id chunk))
     \<and> md (js ''category'') = Some (PStr (js ''repository''))
     \<and> md (js ''repositoryId'') = Some (PStr (state_id st))
     \<and> md (js ''repoId'') = Some (PStr (job_repoId job))
     \<and> md (js ''workspaceId'') = Some (PStr (js ''workspace''))
     \<and> md (js ''userId'') = Some (PStr (case job_userId job of None \<Rightarrow> js ''system''
                                   | Some u \<Rightarrow> if u \<noteq> [] then u else js ''system''))
     \<and> md (js ''timestamp'') = Some (PStr (env_now env path idx))
     \<and> md (js ''filePath'') = Some (PStr path)
     \<and> md (js ''fileType'') = Some (PStr (env_extname env path))
     \<and> md (js ''chunkIndex'') = Some (PNum (Finite (of_nat idx)))
     \<and> md (js ''chunkType'') = Some (PStr (chunk_type chunk))
     \<and> md (js ''parentId'') = Some (PStr path)
     \<and> md (js ''functionName'') = Some (PStr (functionName_of (chunk_id chunk)))
     \<and> md (js ''startLine'') = Some (PNum (Finite (of_nat (chunk_startLine chunk))))
     \<and> md (js ''endLine'') = Some (PNum (Finite (of_nat (chunk_endLine chunk)))))"
proof -
  have r: "\<And>key. key \<in> set reservedFields \<Longrightarrow>
             map_of (spread (baseMetadata env job st path idx chunk) (sanitizeMeta jobMeta)) key
               = map_of (baseMetadata env job st path idx chunk) key"
    by (rule map_of_spread_other) (rule reserved_not_in_sanitizeMeta)
  have k: "js ''id'' \<in> set reservedFields" "js ''category'' \<in> set reservedFields"
    "js ''repositoryId'' \<in> set reservedFields" "js ''repoId'' \<in> set reservedFields"
    "js ''workspaceId'' \<in> set reservedFields" "js ''userId'' \<in> set reservedFields"
    "js ''timestamp'' \<in> set reservedFields" "js ''filePath'' \<in> set reservedFields"
    "js ''fileType'' \<in> set reservedFields" "js ''chunkIndex'' \<in> set reservedFields"
    "js ''chunkType'' \<in> set reservedFields" "js ''parentId'' \<in> set reservedFields"
    "js ''functionName'' \<in> set reservedFields" "js ''startLine'' \<in> set reservedFields"
    "js ''endLine'' \<in> set reservedFields"
    by (simp_all add: reservedFields_def)
  have md: "\<And>key. key \<in> set reservedFields \<Longrightarrow>
      map_of (vr_metadata (chunk_record env job st (sanitizeMeta jobMeta) path vectors idx chunk)) key
      = ((map_of (baseMetadata env job st path idx chunk))
           (js ''id'' \<mapsto> PStr (chunk_id chunk),
            js ''category'' \<mapsto> PStr (js ''repository''),
            js ''repositoryId'' \<mapsto> PStr (state_id st),
            js ''repoId'' \<mapsto> PStr (job_repoId job))) key"
    by (simp add: chunk_record_def Let_def update_conv' r)
  show ?thesis
    unfolding Let_def
    by (intro conjI) (simp_all add: md k baseMetadata_def)
qed

lemma extends_refl: "extends s s R"
  by (simp add: extends_def)

lemma extends_trans: "extends s s' R \<Longrightarrow> extends s' s'' R \<Longrightarrow> extends s s'' R"
  by (auto simp: extends_def)

lemma extends_ensureCollection: "extends s (ensureCollection s) R"
  by (simp add: extends_def ensureCollection_def split: option.splits)

lemma extends_collection_upsert: "set batch \<subseteq> R \<Longrightarrow> extends s (collection_upsert batch s) R"
  by (simp add: extends_def collection_upsert_def)

lemma extends_deleteDocuments: "extends s (deleteDocuments ids s) R"
proof -
  obtain extra where e: "vs_calls (ensureCollection s) = vs_calls s @ extra"
    "set (concat (map rows_of_call extra)) \<subseteq> R"
    using extends_ensureCollection[of s R] by (auto simp: extends_def)
  then show ?thesis
    by (auto simp: extends_def deleteDocuments_def Let_def)
qed

lemma extends_upsert_batches:
  "upsert_batches bs records i s = Some s' \<Longrightarrow> to_row ` set records \<subseteq> R \<Longrightarrow> extends s s' R"
proof (induction bs records i s rule: upsert_batches.induct)
  case (1 bs records i s)
  show ?case
  proof (cases "i < length records")
    case False
    with "1.prems" upsert_batches.simps[of bs records i s] show ?thesis
      by (simp add: extends_refl)
  next
    case True
    with "1.prems" upsert_batches.simps[of bs records i s] have bs: "bs \<noteq> 0"
      by (auto split: if_splits)
    let ?s1 = "collection_upsert (map to_row (take bs (drop i records))) s"
    from True bs "1.prems" upsert_batches.simps[of bs records i s]
    have "upsert_batches bs records (i + bs) ?s1 = Some s'" by simp
    from "1.IH"[OF True bs this "1.prems"(2)] have "extends ?s1 s' R" .
    moreover have "set (map to_row (take bs (drop i records))) \<subseteq> R"
      using "1.prems"(2) by (auto dest: in_set_takeD in_set_dropD)
    then have "extends s ?s1 R" by (rule extends_collection_upsert)
    ultimately show ?thesis by (rule extends_trans[rotated])
  qed
qed

lemma extends_upsert:
  assumes "upsert records s = Some (r, s')" and "to_row ` set records \<subseteq> R"
  shows "extends s s' R"
proof (cases "validateUniqueIds records")
  case (Inl e)
  with assms(1) have "s' = ensureCollection s" by (simp add: upsert_def Let_def)
  then show ?thesis by (simp add: extends_ensureCollection)
next
  case (Inr u)
  with assms(1) have "upsert_batches (vs_batchSize (ensureCollection s)) records 0 (ensureCollection s) = Some s'"
    by (auto simp: upsert_def Let_def split: option.splits)
  from extends_upsert_batches[OF this assms(2)] extends_ensureCollection[of s R]
  show ?thesis by (rule extends_trans[rotated])
qed

lemma extends_mono: "extends s s' R \<Longrightarrow> R \<subseteq> R' \<Longrightarrow> extends s s' R'"
  by (auto simp: extends_def)

lemma job_rows_mono:
  "set files \<subseteq> set files' \<Longrightarrow> job_rows env job st sm files \<subseteq> job_rows env job st sm files'"
  unfolding job_rows_def by blast

lemma chunk_records_rows:
  assumes "path \<in> set files"
    and "env_readFile env (state_localPath st @ js ''/'' @ path) = Some content"
  shows "to_row ` set (chunk_records env job st sm path vectors (semantic_chunks env path content))
           \<subseteq> job_rows env job st sm files"
proof
  let ?cs = "semantic_chunks env path content"
  fix row
  assume "row \<in> to_row ` set (chunk_records env job st sm path vectors ?cs)"
  then obtain idx chunk where z: "(idx, chunk) \<in> set (zip [0 ..< length ?cs] ?cs)"
    and row: "row = to_row (chunk_record env job st sm path vectors idx chunk)"
    by (auto simp: chunk_records_def)
  from z obtain n where "[0 ..< length ?cs] ! n = idx" "?cs ! n = chunk" "n < length ?cs"
    by (auto simp: in_set_zip)
  then have "idx < length ?cs" "chunk = ?cs ! idx" by simp_all
  with assms row show "row \<in> job_rows env job st sm files"
    unfolding job_rows_def by blast
qed

lemma extends_process_files:
  "process_files env job st sm files w = Some (r, w') \<Longrightarrow>
   extends (vectorStore w) (vectorStore w') (job_rows env job st sm files)"
proof (induction files arbitrary: w)
  case Nil
  then show ?case by (simp add: extends_refl)
next
  case (Cons path files)
  let ?R = "job_rows env job st sm (path # files)"
  have mono: "job_rows env job st sm files \<subseteq> ?R"
    by (rule job_rows_mono) auto
  note IH = Cons.IH[THEN extends_mono, OF _ mono]
  show ?case
  proof (cases "isBinaryFile env path")
    case True
    with Cons.prems have "process_files env job st sm files w = Some (r, w')" by simp
    then show ?thesis by (rule IH)
  next
    case False
    show ?thesis
    proof (cases "env_readFile env (state_localPath st @ js ''/'' @ path)")
      case None
      with False Cons.prems have "process_files env job st sm files w = Some (r, w')" by simp
      then show ?thesis by (rule IH)
    next
      case (Some content)
      let ?w1 = "w\<lparr> contentStore := saveParent path content (Some (job_repoId job)) (Some sm)
                                     (contentStore w) \<rparr>"
      let ?chunks = "filter (\<lambda>chunk. chunk_content chunk \<noteq> []
                                 \<and> length (trim (chunk_content chunk)) > 0)
                       (fst (split env path content))"
      have rows: "to_row ` set (chunk_records env job st sm path vectors ?chunks) \<subseteq> ?R"
        for vectors
        using chunk_records_rows[of path "path # files" env st content job sm vectors] Some
        by (simp add: semantic_chunks_def)
      show ?thesis
      proof (cases "length ?chunks = 0")
        case True
        with False Some Cons.prems have "process_files env job st sm files ?w1 = Some (r, w')"
          by (simp add: Let_def)
        from IH[OF this] show ?thesis by simp
      next
        case nonempty: False
        show ?thesis
        proof (cases "fst (embedDocuments (env_create env) (Some (map Some (map chunk_content ?chunks))))")
          case (Inl e)
          with False Some nonempty Cons.prems have "w' = ?w1"
            by (simp add: Let_def)
          then show ?thesis by (simp add: extends_refl)
        next
          case (Inr vectors)
          let ?records = "chunk_records env job st sm path vectors ?chunks"
          show ?thesis
          proof (cases "upsert ?records (vectorStore ?w1)")
            case None
            with False Some nonempty Inr Cons.prems show ?thesis by (simp add: Let_def)
          next
            case (Some a)
            obtain ur vs where a: "a = (ur, vs)" by (cases a)
            with Some have u: "upsert ?records (vectorStore ?w1) = Some (ur, vs)" by simp
            from extends_upsert[OF u rows]
            have e1: "extends (vectorStore w) vs ?R" by simp
            show ?thesis
            proof (cases ur)
              case (Inl e)
              with False \<open>env_readFile env _ = Some content\<close> nonempty Inr u Cons.prems
              have "w' = ?w1\<lparr> vectorStore := vs \<rparr>" by (simp add: Let_def)
              with e1 show ?thesis by simp
            next
              case (Inr uu)
              with False \<open>env_readFile env _ = Some content\<close> nonempty
                \<open>fst (embedDocuments _ _) = Inr vectors\<close> u Cons.prems
              have "process_files env job st sm files (?w1\<lparr> vectorStore := vs \<rparr>) = Some (r, w')"
                by (simp add: Let_def)
              from IH[OF this] have "extends vs (vectorStore w') ?R" by simp
              with e1 show ?thesis by (rule extends_trans)
            qed
          qed
        qed
      qed
    qed
  qed
qed

lemma getRepoState_vectorStore:
  "getRepoState env repoUrl w = (r, w1) \<Longrightarrow> vectorStore w1 = vectorStore w"
  by (auto simp: getRepoState_def Let_def split: option.splits)

lemma process_failed_state:
  assumes "process env job w = Some (result, w')"
    and "getRepoState env (job_repoUrl job) w = (Inl e, w1)"
  shows "vectorStore w' = vectorStore w"
  using assms getRepoState_vectorStore[OF assms(2)]
  by (simp add: process_def Let_def)

lemma extends_process:
  assumes "process env job w = Some (result, w')"
    and g: "getRepoState env (job_repoUrl job) w = (Inr st, w1)"
  shows "vectorStore w' = vectorStore w
         \<or> (\<exists>changes.
               env_getChangedFiles env (state_localPath st) (or_undefined (lastProcessedCommit st))
                 = Inr changes
               \<and> extends (vectorStore w) (vectorStore w')
                   (job_rows env job st (sanitizeMeta (job_meta job))
                      (ch_added changes @ ch_modified changes)))"
proof -
  let ?sm = "sanitizeMeta (job_meta job)"
  from getRepoState_vectorStore[OF g] have v1: "vectorStore w1 = vectorStore w" .
  show ?thesis
  proof (cases "env_getCurrentCommit env (state_localPath st)")
    case (Inl e)
    with g assms have "w' = w1" by (simp add: process_def Let_def)
    with v1 show ?thesis by simp
  next
    case commit: (Inr currentCommit)
    show ?thesis
    proof (cases "env_getChangedFiles env (state_localPath st)
                    (or_undefined (lastProcessedCommit st))")
      case (Inl e)
      with g commit assms have "w' = w1" by (simp add: process_def Let_def)
      with v1 show ?thesis by simp
    next
      case changes: (Inr changes)
      show ?thesis
      proof (cases "length (ch_added changes) = 0 \<and> length (ch_modified changes) = 0")
        case True
        with g commit changes assms have "w' = w1" by (simp add: process_def Let_def)
        with v1 show ?thesis by simp
      next
        case False
        let ?w2 = "if length (ch_deleted changes) > 0
                   then w1\<lparr> vectorStore := deleteDocuments (ch_deleted changes) (vectorStore w1) \<rparr>
                   else w1"
        let ?files = "ch_added changes @ ch_modified changes"
        have e2: "extends (vectorStore w) (vectorStore ?w2) (job_rows env job st ?sm ?files)"
          using v1 by (simp add: extends_refl extends_deleteDocuments)
        from g commit changes False assms
        obtain pr w3 where pf: "process_files env job st ?sm ?files ?w2 = Some (pr, w3)"
          and w': "vectorStore w' = vectorStore w3"
          by (cases "process_files env job st ?sm ?files ?w2")
             (auto simp: process_def Let_def split: sum.splits if_splits)
        from extends_process_files[OF pf] e2 w'
        have "extends (vectorStore w) (vectorStore w') (job_rows env job st ?sm ?files)"
          by (metis extends_trans)
        with changes show ?thesis by blast
      qed
    qed
  qed
qed

lemma rows_written_job_rows:
  assumes "process env job w = Some (result, w')" and "row \<in> set (rows_written w w')"
  shows "\<exists>st changes.
           fst (getRepoState env (job_repoUrl job) w) = Inr st
           \<and> env_getChangedFiles env (state_localPath st) (or_undefined (lastProcessedCommit st))
               = Inr changes
           \<and> row \<in> job_rows env job st (sanitizeMeta (job_meta job))
                     (ch_added changes @ ch_modified changes)"
proof -
  obtain r w1 where g: "getRepoState env (job_repoUrl job) w = (r, w1)"
    by (cases "getRepoState env (job_repoUrl job) w")
  have same: "vectorStore w' \<noteq> vectorStore w"
    using assms(2) by (auto simp: rows_written_def)
  show ?thesis
  proof (cases r)
    case (Inl e)
    with g process_failed_state[OF assms(1)] same show ?thesis by simp
  next
    case (Inr st)
    with g extends_process[OF assms(1)] same obtain changes extra where
      "env_getChangedFiles env (state_localPath st) (or_undefined (lastProcessedCommit st))
         = Inr changes"
      "vs_calls (vectorStore w') = vs_calls (vectorStore w) @ extra"
      "set (concat (map rows_of_call extra))
         \<subseteq> job_rows env job st (sanitizeMeta (job_meta job))
              (ch_added changes @ ch_modified changes)"
      by (auto simp: extends_def)
    moreover from this(2,3) assms(2)
    have "row \<in> job_rows env job st (sanitizeMeta (job_meta job))
                   (ch_added changes @ ch_modified changes)"
      by (auto simp: rows_written_def)
    ultimately show ?thesis using g Inr by auto
  qed
qed

text \<open>
  C4: every row that a job hands to the index is the row of one chunk: the chunk at some
  index \<open>idx\<close> among the chunks that \<open>process\<close> keeps of a file \<open>path\<close> of the diff, added
  or modified, read from the clone of the repository. The row has the id and the content
  of this chunk, and whatever meta the job carries, each of the fifteen reserved keys of
  its metadata has the value that the worker assigns from this chunk, this path, this
  index, the state of the repository and the job: the sanitizer drops the reserved keys
  from the meta, and \<open>id\<close>, \<open>category\<close>, \<open>repositoryId\<close> and \<open>repoId\<close> are assigned after
  the meta is spread.
\<close>

theorem stored_records_carry_system_values:
  assumes "process env job w = Some (result, w')" and "row \<in> set (rows_written w w')"
  shows "\<exists>st changes path content idx.
           fst (getRepoState env (job_repoUrl job) w) = Inr st
           \<and> env_getChangedFiles env (state_localPath st) (or_undefined (lastProcessedCommit st))
               = Inr changes
           \<and> path \<in> set (ch_added changes @ ch_modified changes)
           \<and> env_readFile env (state_localPath st @ js ''/'' @ path) = Some content
           \<and> idx < length (semantic_chunks env path content)
           \<and> (let chunk = semantic_chunks env path content ! idx;
                  md = map_of (row_metadata row)
              in row_id row = chunk_id chunk
               \<and> row_document row = PStr (chunk_content chunk)
               \<and> md (js ''id'') = Some (PStr (chunk_id chunk))
               \<and> md (js ''category'') = Some (PStr (js ''repository''))
               \<and> md (js ''repositoryId'') = Some (PStr (state_id st))
               \<and> md (js ''repoId'') = Some (PStr (job_repoId job))
               \<and> md (js ''workspaceId'') = Some (PStr (js ''workspace''))
               \<and> md (js ''userId'') = Some (PStr (case job_userId job of None \<Rightarrow> js ''system''
                                             | Some u \<Rightarrow> if u \<noteq> [] then u else js ''system''))
               \<and> md (js ''timestamp'') = Some (PStr (env_now env path idx))
               \<and> md (js ''filePath'') = Some (PStr path)
               \<and> md (js ''fileType'') = Some (PStr (env_extname env path))
               \<and> md (js ''chunkIndex'') = Some (PNum (Finite (of_nat idx)))
               \<and> md (js ''chunkType'') = Some (PStr (chunk_type chunk))
               \<and> md (js ''parentId'') = Some (PStr path)
               \<and> md (js ''functionName'') = Some (PStr (functionName_of (chunk_id chunk)))
               \<and> md (js ''startLine'') = Some (PNum (Finite (of_nat (chunk_startLine chunk))))
               \<and> md (js ''endLine'') = Some (PNum (Finite (of_nat (chunk_endLine chunk)))))"
proof -
  let ?sm = "sanitizeMeta (job_meta job)"
  from rows_written_job_rows[OF assms] obtain st changes path content vectors idx where
    st: "fst (getRepoState env (job_repoUrl job) w) = Inr st"
    and changes: "env_getChangedFiles env (state_localPath st)
                    (or_undefined (lastProcessedCommit st)) = Inr changes"
    and path: "path \<in> set (ch_added changes @ ch_modified changes)"
    and content: "env_readFile env (state_localPath st @ js ''/'' @ path) = Some content"
    and idx: "idx < length (semantic_chunks env path content)"
    and row: "row = to_row (chunk_record env job st ?sm path vectors idx
                              (semantic_chunks env path content ! idx))"
    unfolding job_rows_def by blast
  let ?chunk = "semantic_chunks env path content ! idx"
  have md: "row_metadata row = vr_metadata (chunk_record env job st ?sm path vectors idx ?chunk)"
    and ident: "row_id row = chunk_id ?chunk"
    and doc: "row_document row = PStr (chunk_content ?chunk)"
    by (simp_all add: row to_row_def chunk_record_def Let_def)
  have "let chunk = ?chunk; md = map_of (row_metadata row)
        in row_id row = chunk_id chunk
         \<and> row_document row = PStr (chunk_content chunk)
         \<and> md (js ''id'') = Some (PStr (chunk_id chunk))
         \<and> md (js ''category'') = Some (PStr (js ''repository''))
         \<and> md (js ''repositoryId'') = Some (PStr (state_id st))
         \<and> md (js ''repoId'') = Some (PStr (job_repoId job))
         \<and> md (js ''workspaceId'') = Some (PStr (js ''workspace''))
         \<and> md (js ''userId'') = Some (PStr (case job_userId job of None \<Rightarrow> js ''system''
                                       | Some u \<Rightarrow> if u \<noteq> [] then u else js ''system''))
         \<and> md (js ''timestamp'') = Some (PStr (env_now env path idx))
         \<and> md (js ''filePath'') = Some (PStr path)
         \<and> md (js ''fileType'') = Some (PStr (env_extname env path))
         \<and> md (js ''chunkIndex'') = Some (PNum (Finite (of_nat idx)))
         \<and> md (js ''chunkType'') = Some (PStr (chunk_type chunk))
         \<and> md (js ''parentId'') = Some (PStr path)
         \<and> md (js ''functionName'') = Some (PStr (functionName_of (chunk_id chunk)))
         \<and> md (js ''startLine'') = Some (PNum (Finite (of_nat (chunk_startLine chunk))))
         \<and> md (js ''endLine'') = Some (PNum (Finite (of_nat (chunk_endLine chunk))))"
    using chunk_record_reserved[of env job st "job_meta job" path vectors idx ?chunk]
          ident doc
    unfolding Let_def md by (intro conjI) (simp_all only:)
  with st changes path content idx show ?thesis by blast
qed

text \<open>
  The statement of C4 at the sample: the meta of the job names every reserved key; the
  one row that the job stores is the row of the one chunk of \<open>src/a.ts\<close>, each reserved
  key has the worker's value, and the key \<open>team\<close> of the meta is kept.
\<close>

theorem stored_records_witness:
  "process single_function_env meddling_job sample_world
     = Some (Inr None,
             world_after (process single_function_env meddling_job sample_world) sample_world)
   \<and> rows_written sample_world
        (world_after (process single_function_env meddling_job sample_world) sample_world)
       = [stored_row]
   \<and> map_option (map fst) (job_meta meddling_job)
       = Some (reservedFields @ [js ''team'', js ''nested''])
   \<and> semantic_chunks single_function_env (js ''src/a.ts'') sample_source = [sample_chunk]
   \<and> row_id stored_row = js ''src/a.ts:f:function_declaration:L1''
   \<and> row_document stored_row = PStr (js ''function f() {}'')
   \<and> map_of (row_metadata stored_row) (js ''id'')
       = Some (PStr (js ''src/a.ts:f:function_declaration:L1''))
   \<and> map_of (row_metadata stored_row) (js ''category'') = Some (PStr (js ''repository''))
   \<and> map_of (row_metadata stored_row) (js ''repositoryId'') = Some (PStr (js ''01REPO''))
   \<and> map_of (row_metadata stored_row) (js ''repoId'') = Some (PStr (js ''demo''))
   \<and> map_of (row_metadata stored_row) (js ''workspaceId'') = Some (PStr (js ''workspace''))
   \<and> map_of (row_metadata stored_row) (js ''userId'') = Some (PStr (js ''system''))
   \<and> map_of (row_metadata stored_row) (js ''timestamp'')
       = Some (PStr (js ''2025-01-01T00:00:00.000Z''))
   \<and> map_of (row_metadata stored_row) (js ''filePath'') = Some (PStr (js ''src/a.ts''))
   \<and> map_of (row_metadata stored_row) (js ''fileType'') = Some (PStr (js ''.ts''))
   \<and> map_of (row_metadata stored_row) (js ''chunkIndex'') = Some (PNum (Finite 0))
   \<and> map_of (row_metadata stored_row) (js ''chunkType'')
       = Some (PStr (js ''function_declaration''))
   \<and> map_of (row_metadata stored_row) (js ''parentId'') = Some (PStr (js ''src/a.ts''))
   \<and> map_of (row_metadata stored_row) (js ''functionName'') = Some (PStr (js ''f''))
   \<and> map_of (row_metadata stored_row) (js ''startLine'') = Some (PNum (Finite 1))
   \<and> map_of (row_metadata stored_row) (js ''endLine'') = Some (PNum (Finite 1))
   \<and> map_of (row_metadata stored_row) (js ''team'') = Some (PStr (js ''backend''))"
proof -
  let ?E = single_function_env
  let ?w' = "world_after (process ?E meddling_job sample_world) sample_world"
  let ?md = "map_of (row_metadata stored_row)"
  have a: "process ?E meddling_job sample_world = Some (Inr None, ?w')"
    by code_simp
  have b: "rows_written sample_world ?w' = [stored_row]"
    by code_simp
  then have c: "stored_row \<in> set (rows_written sample_world ?w')"
    by simp
  have m: "map_option (map fst) (job_meta meddling_job)
             = Some (reservedFields @ [js ''team'', js ''nested''])"
    by code_simp
  have team: "?md (js ''team'') = Some (PStr (js ''backend''))"
    by code_simp
  have g: "fst (getRepoState ?E (job_repoUrl meddling_job) sample_world) = Inr sample_state"
    by code_simp
  have sc: "semantic_chunks ?E (js ''src/a.ts'') sample_source = [sample_chunk]"
    by code_simp
  have ev: "state_id sample_state = js ''01REPO''" "job_repoId meddling_job = js ''demo''"
    "job_userId meddling_job = None"
    "env_now ?E (js ''src/a.ts'') 0 = js ''2025-01-01T00:00:00.000Z''"
    "env_extname ?E (js ''src/a.ts'') = js ''.ts''"
    "chunk_id sample_chunk = js ''src/a.ts:f:function_declaration:L1''"
    "chunk_content sample_chunk = js ''function f() {}''"
    "chunk_type sample_chunk = js ''function_declaration''"
    "functionName_of (js ''src/a.ts:f:function_declaration:L1'') = js ''f''"
    "chunk_startLine sample_chunk = 1" "chunk_endLine sample_chunk = 1"
    by code_simp+
  from stored_records_carry_system_values[OF a c]
  obtain st changes path content idx where
    f1: "fst (getRepoState ?E (job_repoUrl meddling_job) sample_world) = Inr st"
    and f2: "env_getChangedFiles ?E (state_localPath st) (or_undefined (lastProcessedCommit st))
               = Inr changes"
    and f3: "path \<in> set (ch_added changes @ ch_modified changes)"
    and f4: "env_readFile ?E (state_localPath st @ js ''/'' @ path) = Some content"
    and f5: "idx < length (semantic_chunks ?E path content)"
    and v: "let chunk = semantic_chunks ?E path content ! idx; md = ?md
            in row_id stored_row = chunk_id chunk
             \<and> row_document stored_row = PStr (chunk_content chunk)
             \<and> md (js ''id'') = Some (PStr (chunk_id chunk))
             \<and> md (js ''category'') = Some (PStr (js ''repository''))
             \<and> md (js ''repositoryId'') = Some (PStr (state_id st))
             \<and> md (js ''repoId'') = Some (PStr (job_repoId meddling_job))
             \<and> md (js ''workspaceId'') = Some (PStr (js ''workspace''))
             \<and> md (js ''userId'')
                 = Some (PStr (case job_userId meddling_job of None \<Rightarrow> js ''system''
                               | Some u \<Rightarrow> if u \<noteq> [] then u else js ''system''))
             \<and> md (js ''timestamp'') = Some (PStr (env_now ?E path idx))
             \<and> md (js ''filePath'') = Some (PStr path)
             \<and> md (js ''fileType'') = Some (PStr (env_extname ?E path))
             \<and> md (js ''chunkIndex'') = Some (PNum (Finite (of_nat idx)))
             \<and> md (js ''chunkType'') = Some (PStr (chunk_type chunk))
             \<and> md (js ''parentId'') = Some (PStr path)
             \<and> md (js ''functionName'') = Some (PStr (functionName_of (chunk_id chunk)))
             \<and> md (js ''startLine'') = Some (PNum (Finite (of_nat (chunk_startLine chunk))))
             \<and> md (js ''endLine'') = Some (PNum (Finite (of_nat (chunk_endLine chunk))))"
    by blast
  have st: "st = sample_state" using f1 g by simp
  have ch: "changes = a_ts_added"
    using f2 by (simp add: single_function_env_def sample_env_def)
  have p: "path = js ''src/a.ts''"
    using f3 unfolding ch by (simp add: a_ts_added_def)
  have co: "content = sample_source"
    using f4 by (simp add: single_function_env_def sample_env_def sample_source_def)
  have i: "idx = 0" using f5 unfolding p co sc by simp
  from v have "row_id stored_row = chunk_id sample_chunk
             \<and> row_document stored_row = PStr (chunk_content sample_chunk)
             \<and> ?md (js ''id'') = Some (PStr (chunk_id sample_chunk))
             \<and> ?md (js ''category'') = Some (PStr (js ''repository''))
             \<and> ?md (js ''repositoryId'') = Some (PStr (state_id sample_state))
             \<and> ?md (js ''repoId'') = Some (PStr (job_repoId meddling_job))
             \<and> ?md (js ''workspaceId'') = Some (PStr (js ''workspace''))
             \<and> ?md (js ''userId'')
                 = Some (PStr (case job_userId meddling_job of None \<Rightarrow> js ''system''
                               | Some u \<Rightarrow> if u \<noteq> [] then u else js ''system''))
             \<and> ?md (js ''timestamp'') = Some (PStr (env_now ?E (js ''src/a.ts'') 0))
             \<and> ?md (js ''filePath'') = Some (PStr (js ''src/a.ts''))
             \<and> ?md (js ''fileType'') = Some (PStr (env_extname ?E (js ''src/a.ts'')))
             \<and> ?md (js ''chunkIndex'') = Some (PNum (Finite (of_nat 0)))
             \<and> ?md (js ''chunkType'') = Some (PStr (chunk_type sample_chunk))
             \<and> ?md (js ''parentId'') = Some (PStr (js ''src/a.ts''))
             \<and> ?md (js ''functionName'') = Some (PStr (functionName_of (chunk_id sample_chunk)))
             \<and> ?md (js ''startLine'')
                 = Some (PNum (Finite (of_nat (chunk_startLine sample_chunk))))
             \<and> ?md (js ''endLine'')
                 = Some (PNum (Finite (of_nat (chunk_endLine sample_chunk))))"
    unfolding Let_def st p co i sc by (simp only: nth_Cons_0)
  then have "row_id stored_row = js ''src/a.ts:f:function_declaration:L1''
             \<and> row_document stored_row = PStr (js ''function f() {}'')
             \<and> ?md (js ''id'') = Some (PStr (js ''src/a.ts:f:function_declaration:L1''))
             \<and> ?md (js ''category'') = Some (PStr (js ''repository''))
             \<and> ?md (js ''repositoryId'') = Some (PStr (js ''01REPO''))
             \<and> ?md (js ''repoId'') = Some (PStr (js ''demo''))
             \<and> ?md (js ''workspaceId'') = Some (PStr (js ''workspace''))
             \<and> ?md (js ''userId'') = Some (PStr (js ''system''))
             \<and> ?md (js ''timestamp'') = Some (PStr (js ''2025-01-01T00:00:00.000Z''))
             \<and> ?md (js ''filePath'') = Some (PStr (js ''src/a.ts''))
             \<and> ?md (js ''fileType'') = Some (PStr (js ''.ts''))
             \<and> ?md (js ''chunkIndex'') = Some (PNum (Finite 0))
             \<and> ?md (js ''chunkType'') = Some (PStr (js ''function_declaration''))
             \<and> ?md (js ''parentId'') = Some (PStr (js ''src/a.ts''))
             \<and> ?md (js ''functionName'') = Some (PStr (js ''f''))
             \<and> ?md (js ''startLine'') = Some (PNum (Finite 1))
             \<and> ?md (js ''endLine'') = Some (PNum (Finite 1))"
    by (simp only: ev of_nat_0 of_nat_1 option.case)
  with a b m sc team show ?thesis by (simp only: simp_thms)
qed

end
